theory Spec2Isabelle
  imports Main "HOL-Library.AList"
begin

section \<open>The MWAA logging configuration (mwaa/logging/config.py)\<close>

text \<open>
  The module adopts Airflow's default logging configuration, a nested dictionary, and
  changes it so that task, DAG-processing and subprocess logs go to CloudWatch Logs.
  The dictionary is modelled as a value of \<open>pyval\<close>; a dictionary keeps its insertion
  order, as Python's does, so it is an association list. The in-place mutation of the
  module-level \<open>LOGGING_CONFIG\<close> is explicit state passing: every setup function takes
  the configuration and returns the changed one, or the exception it raises.

  Isabelle names cannot start with an underscore: \<open>_configure\<close> of the source is
  \<open>configure\<close> here, and so on for the other private functions.
\<close>

subsection \<open>Python values and the dictionary operations the module uses\<close>

datatype pyval =
    PNone
  | PBool bool
  | PInt int
  | PStr string
  | PList "pyval list"
  | PDict "(string \<times> pyval) list"

datatype py_error = KeyError string | TypeError | AttributeError

type_synonym 'a result = "py_error + 'a"

type_synonym environ = "string \<rightharpoonup> string"

text \<open>Sequencing of statements that may raise: the first exception ends the run.\<close>

definition bind :: "'a result \<Rightarrow> ('a \<Rightarrow> 'b result) \<Rightarrow> 'b result" where
  "bind m f = (case m of Inl e \<Rightarrow> Inl e | Inr x \<Rightarrow> f x)"

text \<open>\<open>obj[key]\<close> with a string key: only a dictionary can be subscripted with one.\<close>

definition getitem :: "pyval \<Rightarrow> string \<Rightarrow> pyval result" where
  "getitem obj key =
     (case obj of
        PDict d \<Rightarrow> (case map_of d key of None \<Rightarrow> Inl (KeyError key) | Some v \<Rightarrow> Inr v)
      | _ \<Rightarrow> Inl TypeError)"

text \<open>\<open>obj[key] = v\<close>: an existing key keeps its place, a new key goes to the end.\<close>

definition setitem :: "pyval \<Rightarrow> string \<Rightarrow> pyval \<Rightarrow> pyval result" where
  "setitem obj key v =
     (case obj of
        PDict d \<Rightarrow> Inr (PDict (AList.update key v d))
      | _ \<Rightarrow> Inl TypeError)"

text \<open>\<open>obj.update(other)\<close>: only a dictionary has the method among the values here.\<close>

definition dict_update :: "pyval \<Rightarrow> (string \<times> pyval) list \<Rightarrow> pyval result" where
  "dict_update obj other =
     (case obj of
        PDict d \<Rightarrow> Inr (PDict (fold (\<lambda>(k, v). AList.update k v) other d))
      | _ \<Rightarrow> Inl AttributeError)"

text \<open>
  The nested dictionaries are objects shared with their parent: a change made to
  \<open>cfg[outer]\<close> is seen through \<open>cfg\<close>. With values instead of references, the changed
  inner dictionary is put back where it was read.
\<close>

definition put :: "pyval \<Rightarrow> string \<Rightarrow> pyval \<Rightarrow> pyval" where
  "put obj key v = (case obj of PDict d \<Rightarrow> PDict (AList.update key v d) | _ \<Rightarrow> obj)"

text \<open>\<open>cfg[outer][key] = v\<close>\<close>

definition setitem_in :: "pyval \<Rightarrow> string \<Rightarrow> string \<Rightarrow> pyval \<Rightarrow> pyval result" where
  "setitem_in cfg outer key v =
     bind (getitem cfg outer) (\<lambda>inner.
     bind (setitem inner key v) (\<lambda>inner'.
     Inr (put cfg outer inner')))"

text \<open>\<open>cfg[outer][key].update(other)\<close>\<close>

definition update_in :: "pyval \<Rightarrow> string \<Rightarrow> string \<Rightarrow> (string \<times> pyval) list \<Rightarrow> pyval result" where
  "update_in cfg outer key other =
     bind (getitem cfg outer) (\<lambda>inner.
     bind (getitem inner key) (\<lambda>entry.
     bind (dict_update entry other) (\<lambda>entry'.
     Inr (put cfg outer (put inner key entry')))))"

subsection \<open>Strings\<close>

text \<open>
  \<open>str.upper\<close> and \<open>str.lower\<close> on the ASCII letters; every other character is
  left as it is. The module upper-cases only its own source names, which are ASCII, and
  compares a lower-cased value with \<open>"true"\<close>: no character outside ASCII has one of
  the letters t, r, u, e as its lower case.
\<close>

definition upper_char :: "char \<Rightarrow> char" where
  "upper_char c =
     (case map_of (zip ''abcdefghijklmnopqrstuvwxyz'' ''ABCDEFGHIJKLMNOPQRSTUVWXYZ'') c of
        Some d \<Rightarrow> d | None \<Rightarrow> c)"

definition lower_char :: "char \<Rightarrow> char" where
  "lower_char c =
     (case map_of (zip ''ABCDEFGHIJKLMNOPQRSTUVWXYZ'' ''abcdefghijklmnopqrstuvwxyz'') c of
        Some d \<Rightarrow> d | None \<Rightarrow> c)"

definition upper :: "string \<Rightarrow> string" where
  "upper s = map upper_char s"

definition lower :: "string \<Rightarrow> string" where
  "lower s = map lower_char s"

text \<open>\<open>os.path.basename\<close> (posixpath): what follows the last slash.\<close>

definition basename :: "string \<Rightarrow> string" where
  "basename p = rev (takeWhile (\<lambda>c. c \<noteq> CHR ''/'') (rev p))"

subsection \<open>What the module imports\<close>

text \<open>
  A class, as far as \<open>_qualified_name\<close> reads it.
\<close>

record pyclass =
  cls_module :: string
  cls_qualname :: string

text \<open>
  The constants of \<open>airflow.config_templates.airflow_local_settings\<close>, the handler
  classes of \<open>mwaa.logging.cloudwatch_handlers\<close> and \<open>os.path.expanduser\<close> are not
  part of this file: they are parameters. \<open>expanduser\<close> is a function of the process
  environment (it reads \<open>HOME\<close>) and of the path.
\<close>

record externals =
  BASE_LOG_FOLDER :: string
  DAG_PROCESSOR_MANAGER_LOG_LOCATION :: string
  DEFAULT_LOGGING_CONFIG :: pyval
  PROCESSOR_FILENAME_TEMPLATE :: string
  TaskLogHandler :: pyclass
  DagProcessorManagerLogHandler :: pyclass
  DagProcessingLogHandler :: pyclass
  SubprocessLogHandler :: pyclass
  expanduser :: "environ \<Rightarrow> string \<Rightarrow> string"

text \<open>\<open>logging.getLevelName(logging.INFO)\<close>\<close>

definition INFO_level_name :: string where
  "INFO_level_name = ''INFO''"

subsection \<open>The module\<close>

text \<open>
  \<open>LOGGING_CONFIG = {**DEFAULT_LOGGING_CONFIG}\<close>: a copy of the top level; unpacking
  anything but a mapping raises. The nested dictionaries are not copied, so the setup
  calls change the framework's own \<open>handlers\<close> and \<open>loggers\<close> dictionaries as well; the
  model follows \<open>LOGGING_CONFIG\<close> only. The default configuration is taken to be a
  tree: no dictionary in it is reachable under two names.
\<close>

definition LOGGING_CONFIG_init :: "externals \<Rightarrow> pyval result" where
  "LOGGING_CONFIG_init ext =
     (case DEFAULT_LOGGING_CONFIG ext of PDict d \<Rightarrow> Inr (PDict d) | _ \<Rightarrow> Inl TypeError)"

definition qualified_name :: "pyclass \<Rightarrow> string" where
  "qualified_name cls = cls_module cls @ ''.'' @ cls_qualname cls"

text \<open>The name of a variable: \<open>f"MWAA__LOGGING__AIRFLOW_{source.upper()}_..."\<close>\<close>

definition env_var :: "string \<Rightarrow> string \<Rightarrow> string" where
  "env_var source suffix = ''MWAA__LOGGING__AIRFLOW_'' @ upper source @ suffix"

definition get_mwaa_logging_env_vars :: "environ \<Rightarrow> string \<Rightarrow> string option \<times> string \<times> bool" where
  "get_mwaa_logging_env_vars env source =
     (let log_group_arn = env (env_var source ''_LOG_GROUP_ARN'');
          log_level = (case env (env_var source ''_LOG_LEVEL'') of
                         None \<Rightarrow> INFO_level_name | Some v \<Rightarrow> v);
          logging_enabled = (case env (env_var source ''_LOGS_ENABLED'') of
                               None \<Rightarrow> ''false'' | Some v \<Rightarrow> v)
      in (log_group_arn, log_level, lower logging_enabled = ''true''))"

text \<open>
  The dictionary displays the setup functions assign, one definition for each display of
  a handler (lines 52-59, 73-79, 87-93 and 110-118 of the source). The three displays of
  a new logger (lines 80-84, 94-98 and 120-124) have one shape and are one definition.
\<close>

definition task_handler :: "externals \<Rightarrow> environ \<Rightarrow> string \<Rightarrow> bool \<Rightarrow> pyval" where
  "task_handler ext env log_group_arn logging_enabled = PDict [
     (''class'', PStr (qualified_name (TaskLogHandler ext))),
     (''formatter'', PStr ''airflow''),
     (''filters'', PList [PStr ''mask_secrets'']),
     (''base_log_folder'', PStr (expanduser ext env (BASE_LOG_FOLDER ext))),
     (''log_group_arn'', PStr log_group_arn),
     (''enabled'', PBool logging_enabled)]"

definition processor_manager_handler :: "externals \<Rightarrow> string \<Rightarrow> bool \<Rightarrow> pyval" where
  "processor_manager_handler ext log_group_arn logging_enabled = PDict [
     (''class'', PStr (qualified_name (DagProcessorManagerLogHandler ext))),
     (''formatter'', PStr ''airflow''),
     (''log_group_arn'', PStr log_group_arn),
     (''stream_name'', PStr (basename (DAG_PROCESSOR_MANAGER_LOG_LOCATION ext))),
     (''enabled'', PBool logging_enabled)]"

definition processor_handler :: "externals \<Rightarrow> string \<Rightarrow> bool \<Rightarrow> pyval" where
  "processor_handler ext log_group_arn logging_enabled = PDict [
     (''class'', PStr (qualified_name (DagProcessingLogHandler ext))),
     (''formatter'', PStr ''airflow''),
     (''log_group_arn'', PStr log_group_arn),
     (''stream_name_template'', PStr (PROCESSOR_FILENAME_TEMPLATE ext)),
     (''enabled'', PBool logging_enabled)]"

definition subprocess_handler :: "externals \<Rightarrow> string \<Rightarrow> string \<Rightarrow> bool \<Rightarrow> pyval" where
  "subprocess_handler ext subprocess_name log_group_arn logging_enabled = PDict [
     (''class'', PStr (qualified_name (SubprocessLogHandler ext))),
     (''formatter'', PStr ''airflow''),
     (''filters'', PList [PStr ''mask_secrets'']),
     (''log_group_arn'', PStr log_group_arn),
     (''stream_name_prefix'', PStr subprocess_name),
     (''subprocess_name'', PStr subprocess_name),
     (''enabled'', PBool logging_enabled)]"

definition new_logger :: "string \<Rightarrow> string \<Rightarrow> pyval" where
  "new_logger handler_name log_level = PDict [
     (''handlers'', PList [PStr handler_name]),
     (''level'', PStr log_level),
     (''propagate'', PBool False)]"

definition configure_task_logging :: "externals \<Rightarrow> environ \<Rightarrow> pyval \<Rightarrow> pyval result" where
  "configure_task_logging ext env cfg =
     (case get_mwaa_logging_env_vars env ''task'' of
        (None, log_level, logging_enabled) \<Rightarrow> Inr cfg
      | (Some log_group_arn, log_level, logging_enabled) \<Rightarrow>
          bind (setitem_in cfg ''handlers'' ''task''
                  (task_handler ext env log_group_arn logging_enabled)) (\<lambda>cfg.
          update_in cfg ''loggers'' ''airflow.task'' [(''level'', PStr log_level)]))"

definition configure_dag_processing_logging :: "externals \<Rightarrow> environ \<Rightarrow> pyval \<Rightarrow> pyval result" where
  "configure_dag_processing_logging ext env cfg =
     (case get_mwaa_logging_env_vars env ''dag_processing'' of
        (None, log_level, logging_enabled) \<Rightarrow> Inr cfg
      | (Some log_group_arn, log_level, logging_enabled) \<Rightarrow>
          bind (setitem_in cfg ''handlers'' ''processor_manager''
                  (processor_manager_handler ext log_group_arn logging_enabled)) (\<lambda>cfg.
          bind (setitem_in cfg ''loggers'' ''airflow.processor_manager''
                  (new_logger ''processor_manager'' log_level)) (\<lambda>cfg.
          bind (setitem_in cfg ''handlers'' ''processor''
                  (processor_handler ext log_group_arn logging_enabled)) (\<lambda>cfg.
          setitem_in cfg ''loggers'' ''airflow.processor''
                  (new_logger ''processor'' log_level)))))"

definition configure_subprocesses_logging ::
  "externals \<Rightarrow> string \<Rightarrow> string option \<Rightarrow> string \<Rightarrow> bool \<Rightarrow> pyval \<Rightarrow> pyval result" where
  "configure_subprocesses_logging ext subprocess_name log_group_arn log_level logging_enabled cfg =
     (let handler_name = ''mwaa_'' @ subprocess_name;
          logger_name = ''mwaa.'' @ subprocess_name
      in case log_group_arn of
           None \<Rightarrow> Inr cfg
         | Some arn \<Rightarrow>
             bind (setitem_in cfg ''handlers'' handler_name
                     (subprocess_handler ext subprocess_name arn logging_enabled)) (\<lambda>cfg.
             setitem_in cfg ''loggers'' logger_name (new_logger handler_name log_level)))"

text \<open>The loop of \<open>_configure\<close> over the components.\<close>

fun configure_components :: "externals \<Rightarrow> environ \<Rightarrow> string list \<Rightarrow> pyval \<Rightarrow> pyval result" where
  "configure_components ext env [] cfg = Inr cfg"
| "configure_components ext env (component # components) cfg =
     (case get_mwaa_logging_env_vars env component of
        (log_group_arn, log_level, logging_enabled) \<Rightarrow>
          bind (configure_subprocesses_logging ext component
                  log_group_arn log_level logging_enabled cfg) (\<lambda>cfg.
          bind (configure_subprocesses_logging ext (component @ ''_requirements'')
                  log_group_arn log_level logging_enabled cfg) (\<lambda>cfg.
          configure_components ext env components cfg)))"

definition configure :: "externals \<Rightarrow> environ \<Rightarrow> pyval \<Rightarrow> pyval result" where
  "configure ext env cfg =
     bind (configure_task_logging ext env cfg) (\<lambda>cfg.
     bind (configure_dag_processing_logging ext env cfg) (\<lambda>cfg.
     configure_components ext env [''worker'', ''scheduler'', ''webserver''] cfg))"

text \<open>
  Loading the module: the assignment of \<open>LOGGING_CONFIG\<close>, then the call
  \<open>_configure()\<close> in the last line.
\<close>

definition module_load :: "externals \<Rightarrow> environ \<Rightarrow> pyval result" where
  "module_load ext env = bind (LOGGING_CONFIG_init ext) (configure ext env)"

section \<open>Reading the configuration\<close>

text \<open>
  The handlers and the loggers of a configuration, as partial maps from names to
  entries: what the host framework finds under \<open>cfg["handlers"]\<close> and
  \<open>cfg["loggers"]\<close>. A configuration without such a dictionary has no entries.
\<close>

definition subdict :: "pyval \<Rightarrow> string \<Rightarrow> (string \<rightharpoonup> pyval)" where
  "subdict cfg outer = (case getitem cfg outer of Inr (PDict d) \<Rightarrow> map_of d | _ \<Rightarrow> Map.empty)"

definition handlers_of :: "pyval \<Rightarrow> (string \<rightharpoonup> pyval)" where
  "handlers_of cfg = subdict cfg ''handlers''"

definition loggers_of :: "pyval \<Rightarrow> (string \<rightharpoonup> pyval)" where
  "loggers_of cfg = subdict cfg ''loggers''"

text \<open>The three values \<open>_get_mwaa_logging_env_vars\<close> returns for a source.\<close>

definition log_group_arn :: "environ \<Rightarrow> string \<Rightarrow> string option" where
  "log_group_arn env source = fst (get_mwaa_logging_env_vars env source)"

definition log_level :: "environ \<Rightarrow> string \<Rightarrow> string" where
  "log_level env source = fst (snd (get_mwaa_logging_env_vars env source))"

definition logging_enabled :: "environ \<Rightarrow> string \<Rightarrow> bool" where
  "logging_enabled env source = snd (snd (get_mwaa_logging_env_vars env source))"

text \<open>
  The effect of the setup calls on the two maps. A call guarded by
  \<open>log_group_arn is not None\<close> writes the entry \<open>entry a\<close> under \<open>name\<close> when the
  variable holds \<open>a\<close>, and nothing otherwise.
\<close>

definition written :: "string option \<Rightarrow> string \<Rightarrow> (string \<Rightarrow> pyval) \<Rightarrow> (string \<rightharpoonup> pyval) \<Rightarrow> (string \<rightharpoonup> pyval)" where
  "written arn name entry m = (case arn of None \<Rightarrow> m | Some a \<Rightarrow> m(name \<mapsto> entry a))"

definition task_handlers :: "externals \<Rightarrow> environ \<Rightarrow> (string \<rightharpoonup> pyval) \<Rightarrow> (string \<rightharpoonup> pyval)" where
  "task_handlers ext env m =
     written (log_group_arn env ''task'') ''task''
       (\<lambda>a. task_handler ext env a (logging_enabled env ''task'')) m"

definition task_loggers :: "environ \<Rightarrow> (string \<rightharpoonup> pyval) \<Rightarrow> (string \<rightharpoonup> pyval)" where
  "task_loggers env m =
     (case log_group_arn env ''task'' of
        None \<Rightarrow> m
      | Some a \<Rightarrow>
          (case m ''airflow.task'' of
             Some (PDict e) \<Rightarrow>
               m(''airflow.task'' \<mapsto> PDict (AList.update ''level'' (PStr (log_level env ''task'')) e))
           | _ \<Rightarrow> m))"

definition dag_handlers :: "externals \<Rightarrow> environ \<Rightarrow> (string \<rightharpoonup> pyval) \<Rightarrow> (string \<rightharpoonup> pyval)" where
  "dag_handlers ext env m =
     written (log_group_arn env ''dag_processing'') ''processor''
       (\<lambda>a. processor_handler ext a (logging_enabled env ''dag_processing''))
       (written (log_group_arn env ''dag_processing'') ''processor_manager''
          (\<lambda>a. processor_manager_handler ext a (logging_enabled env ''dag_processing'')) m)"

definition dag_loggers :: "environ \<Rightarrow> (string \<rightharpoonup> pyval) \<Rightarrow> (string \<rightharpoonup> pyval)" where
  "dag_loggers env m =
     written (log_group_arn env ''dag_processing'') ''airflow.processor''
       (\<lambda>a. new_logger ''processor'' (log_level env ''dag_processing''))
       (written (log_group_arn env ''dag_processing'') ''airflow.processor_manager''
          (\<lambda>a. new_logger ''processor_manager'' (log_level env ''dag_processing'')) m)"

definition component_handlers :: "externals \<Rightarrow> environ \<Rightarrow> string \<Rightarrow> (string \<rightharpoonup> pyval) \<Rightarrow> (string \<rightharpoonup> pyval)" where
  "component_handlers ext env c m =
     written (log_group_arn env c) (''mwaa_'' @ c @ ''_requirements'')
       (\<lambda>a. subprocess_handler ext (c @ ''_requirements'') a (logging_enabled env c))
       (written (log_group_arn env c) (''mwaa_'' @ c)
          (\<lambda>a. subprocess_handler ext c a (logging_enabled env c)) m)"

definition component_loggers :: "environ \<Rightarrow> string \<Rightarrow> (string \<rightharpoonup> pyval) \<Rightarrow> (string \<rightharpoonup> pyval)" where
  "component_loggers env c m =
     written (log_group_arn env c) (''mwaa.'' @ c @ ''_requirements'')
       (\<lambda>a. new_logger (''mwaa_'' @ c @ ''_requirements'') (log_level env c))
       (written (log_group_arn env c) (''mwaa.'' @ c)
          (\<lambda>a. new_logger (''mwaa_'' @ c) (log_level env c)) m)"

definition handlers_after :: "externals \<Rightarrow> environ \<Rightarrow> (string \<rightharpoonup> pyval) \<Rightarrow> (string \<rightharpoonup> pyval)" where
  "handlers_after ext env m =
     fold (component_handlers ext env) [''worker'', ''scheduler'', ''webserver'']
       (dag_handlers ext env (task_handlers ext env m))"

definition loggers_after :: "environ \<Rightarrow> (string \<rightharpoonup> pyval) \<Rightarrow> (string \<rightharpoonup> pyval)" where
  "loggers_after env m =
     fold (component_loggers env) [''worker'', ''scheduler'', ''webserver'']
       (dag_loggers env (task_loggers env m))"

text \<open>
  The sources that have variables of their own, and the handler and logger names each
  of them stands for in the setup calls: \<open>(handler name, logger name)\<close>.
\<close>

definition sources :: "string list" where
  "sources = [''task'', ''dag_processing'', ''worker'', ''scheduler'', ''webserver'']"

definition registrations :: "string \<Rightarrow> (string \<times> string) list" where
  "registrations source =
     (if source = ''task'' then [(''task'', ''airflow.task'')]
      else if source = ''dag_processing'' then
        [(''processor_manager'', ''airflow.processor_manager''), (''processor'', ''airflow.processor'')]
      else [(''mwaa_'' @ source, ''mwaa.'' @ source),
            (''mwaa_'' @ source @ ''_requirements'', ''mwaa.'' @ source @ ''_requirements'')])"

text \<open>The sixteen ways to write \<open>true\<close> in upper and lower case.\<close>

definition true_spellings :: "string list" where
  "true_spellings = [[a, b, c, d]. a \<leftarrow> ''tT'', b \<leftarrow> ''rR'', c \<leftarrow> ''uU'', d \<leftarrow> ''eE'']"

text \<open>
  A default configuration the module loads on: it has a dictionary of handlers and a
  dictionary of loggers, and the logger \<open>airflow.task\<close> is a dictionary.
\<close>

fun is_dict :: "pyval \<Rightarrow> bool" where
  "is_dict (PDict d) = True"
| "is_dict v = False"

definition has_dict :: "pyval \<Rightarrow> string \<Rightarrow> bool" where
  "has_dict obj key = (case getitem obj key of Inr v \<Rightarrow> is_dict v | Inl e \<Rightarrow> False)"

definition well_formed :: "pyval \<Rightarrow> bool" where
  "well_formed cfg \<longleftrightarrow>
     has_dict cfg ''handlers'' \<and> has_dict cfg ''loggers'' \<and>
     (case getitem cfg ''loggers'' of Inr l \<Rightarrow> has_dict l ''airflow.task'' | Inl e \<Rightarrow> False)"

text \<open>
  A parameter of a handler entry and of a logger entry of a configuration:
  \<open>cfg["handlers"][name][key]\<close> and \<open>cfg["loggers"][name][key]\<close>, where they exist.
\<close>

definition handler_param :: "pyval \<Rightarrow> string \<Rightarrow> string \<Rightarrow> pyval option" where
  "handler_param cfg name key =
     (case handlers_of cfg name of Some (PDict e) \<Rightarrow> map_of e key | _ \<Rightarrow> None)"

definition logger_param :: "pyval \<Rightarrow> string \<Rightarrow> string \<Rightarrow> pyval option" where
  "logger_param cfg name key =
     (case loggers_of cfg name of Some (PDict e) \<Rightarrow> map_of e key | _ \<Rightarrow> None)"

text \<open>The keys of the top level of a configuration, in their order.\<close>

definition top_keys :: "pyval \<Rightarrow> string list" where
  "top_keys cfg = (case cfg of PDict d \<Rightarrow> map fst d | _ \<Rightarrow> [])"

text \<open>The handler class each handler name is given in the setup calls.\<close>

definition handler_class :: "externals \<Rightarrow> string \<Rightarrow> pyclass" where
  "handler_class ext h =
     (if h = ''task'' then TaskLogHandler ext
      else if h = ''processor_manager'' then DagProcessorManagerLogHandler ext
      else if h = ''processor'' then DagProcessingLogHandler ext
      else SubprocessLogHandler ext)"

text \<open>
  The keys of the dictionary \<open>cfg[outer]\<close> in their order, what an assignment to a key
  does to them, and the pairs of a handler name and a logger name the setup calls write
  for an environment, in the order of the calls.
\<close>

definition dict_keys :: "pyval \<Rightarrow> string \<Rightarrow> string list" where
  "dict_keys cfg outer = (case getitem cfg outer of Inr (PDict d) \<Rightarrow> map fst d | _ \<Rightarrow> [])"

definition add_key :: "string list \<Rightarrow> string \<Rightarrow> string list" where
  "add_key ks k = (if k \<in> set ks then ks else ks @ [k])"

definition written_names :: "environ \<Rightarrow> (string \<times> string) list" where
  "written_names env =
     concat (map (\<lambda>source. if log_group_arn env source = None then [] else registrations source)
       sources)"

section \<open>Sample inputs\<close>

text \<open>
  A cut of Airflow's default configuration with the names the module touches, and some
  environments.
\<close>

definition airflow_defaults :: externals where
  "airflow_defaults = \<lparr>
     BASE_LOG_FOLDER = ''/usr/local/airflow/logs'',
     DAG_PROCESSOR_MANAGER_LOG_LOCATION =
       ''/usr/local/airflow/logs/dag_processor_manager/dag_processor_manager.log'',
     DEFAULT_LOGGING_CONFIG = PDict [
       (''version'', PInt 1),
       (''disable_existing_loggers'', PBool False),
       (''handlers'', PDict [
          (''console'', PDict [
             (''class'', PStr ''airflow.utils.log.logging_mixin.RedirectStdHandler''),
             (''formatter'', PStr ''airflow_coloured'')]),
          (''task'', PDict [
             (''class'', PStr ''airflow.utils.log.file_task_handler.FileTaskHandler''),
             (''formatter'', PStr ''airflow'')])]),
       (''loggers'', PDict [
          (''airflow.task'', PDict [
             (''handlers'', PList [PStr ''task'']),
             (''level'', PStr ''INFO''),
             (''propagate'', PBool True),
             (''filters'', PList [PStr ''mask_secrets''])])])],
     PROCESSOR_FILENAME_TEMPLATE = ''{{ filename }}.log'',
     TaskLogHandler =
       \<lparr>cls_module = ''mwaa.logging.cloudwatch_handlers'', cls_qualname = ''TaskLogHandler''\<rparr>,
     DagProcessorManagerLogHandler =
       \<lparr>cls_module = ''mwaa.logging.cloudwatch_handlers'',
        cls_qualname = ''DagProcessorManagerLogHandler''\<rparr>,
     DagProcessingLogHandler =
       \<lparr>cls_module = ''mwaa.logging.cloudwatch_handlers'',
        cls_qualname = ''DagProcessingLogHandler''\<rparr>,
     SubprocessLogHandler =
       \<lparr>cls_module = ''mwaa.logging.cloudwatch_handlers'',
        cls_qualname = ''SubprocessLogHandler''\<rparr>,
     expanduser = (\<lambda>env path. path) \<rparr>"

definition env_all :: environ where
  "env_all = map_of [
     (''MWAA__LOGGING__AIRFLOW_TASK_LOG_GROUP_ARN'', ''arn:aws:logs:us-east-1:1:log-group:Task''),
     (''MWAA__LOGGING__AIRFLOW_TASK_LOG_LEVEL'', ''DEBUG''),
     (''MWAA__LOGGING__AIRFLOW_TASK_LOGS_ENABLED'', ''true''),
     (''MWAA__LOGGING__AIRFLOW_DAG_PROCESSING_LOG_GROUP_ARN'', ''arn:aws:logs:us-east-1:1:log-group:DAGProcessing''),
     (''MWAA__LOGGING__AIRFLOW_DAG_PROCESSING_LOG_LEVEL'', ''WARNING''),
     (''MWAA__LOGGING__AIRFLOW_DAG_PROCESSING_LOGS_ENABLED'', ''TRUE''),
     (''MWAA__LOGGING__AIRFLOW_WORKER_LOG_GROUP_ARN'', ''arn:aws:logs:us-east-1:1:log-group:Worker''),
     (''MWAA__LOGGING__AIRFLOW_WORKER_LOGS_ENABLED'', ''True''),
     (''MWAA__LOGGING__AIRFLOW_SCHEDULER_LOG_GROUP_ARN'', ''arn:aws:logs:us-east-1:1:log-group:Scheduler''),
     (''MWAA__LOGGING__AIRFLOW_SCHEDULER_LOGS_ENABLED'', ''yes''),
     (''MWAA__LOGGING__AIRFLOW_WEBSERVER_LOG_GROUP_ARN'', ''arn:aws:logs:us-east-1:1:log-group:WebServer'')]"

definition env_worker :: environ where
  "env_worker = map_of [
     (''MWAA__LOGGING__AIRFLOW_WORKER_LOG_GROUP_ARN'', ''arn:aws:logs:us-east-1:1:log-group:Worker'')]"

definition env_task :: environ where
  "env_task = map_of [
     (''MWAA__LOGGING__AIRFLOW_TASK_LOG_GROUP_ARN'', ''arn:aws:logs:us-east-1:1:log-group:Task''),
     (''MWAA__LOGGING__AIRFLOW_TASK_LOG_LEVEL'', ''DEBUG'')]"

definition env_none :: environ where
  "env_none = map_of []"

definition env_worker_debug :: environ where
  "env_worker_debug = map_of [
     (''MWAA__LOGGING__AIRFLOW_WORKER_LOG_GROUP_ARN'', ''arn:aws:logs:eu-west-1:2:log-group:Worker''),
     (''MWAA__LOGGING__AIRFLOW_WORKER_LOG_LEVEL'', ''DEBUG''),
     (''MWAA__LOGGING__AIRFLOW_WORKER_LOGS_ENABLED'', ''true'')]"

definition env_worker_home :: environ where
  "env_worker_home = map_of [
     (''HOME'', ''/usr/local/airflow''),
     (''MWAA__LOGGING__AIRFLOW_WORKER_LOG_GROUP_ARN'', ''arn:aws:logs:us-east-1:1:log-group:Worker''),
     (''MWAA__LOGGING__AIRFLOW_WORKER_REQUIREMENTS_LOG_GROUP_ARN'', ''arn:aws:logs:us-east-1:1:log-group:Other'')]"

section \<open>The effect of the setup calls\<close>

subsection \<open>The dictionary operations\<close>

lemma bind_Inr_iff: "bind m f = Inr y \<longleftrightarrow> (\<exists>x. m = Inr x \<and> f x = Inr y)"
  by (cases m) (simp_all add: bind_def)

lemma getitem_Inr_iff:
  "getitem obj key = Inr v \<longleftrightarrow> (\<exists>d. obj = PDict d \<and> map_of d key = Some v)"
  by (cases obj) (simp_all add: getitem_def split: option.splits)

lemma setitem_Inr_iff:
  "setitem obj key v = Inr obj' \<longleftrightarrow> (\<exists>d. obj = PDict d \<and> obj' = PDict (AList.update key v d))"
  by (cases obj) (auto simp add: setitem_def)

lemma dict_update_Inr_iff:
  "dict_update obj [(k, v)] = Inr obj' \<longleftrightarrow> (\<exists>d. obj = PDict d \<and> obj' = PDict (AList.update k v d))"
  by (cases obj) (auto simp add: dict_update_def)

lemma subdict_PDict:
  "subdict (PDict c) outer = (case map_of c outer of Some (PDict d) \<Rightarrow> map_of d | _ \<Rightarrow> Map.empty)"
  by (simp add: subdict_def getitem_def split: option.splits pyval.splits)

lemma setitem_in_subdict:
  assumes "setitem_in cfg outer key v = Inr cfg'"
  shows "subdict cfg' name = (if name = outer then (subdict cfg outer)(key \<mapsto> v) else subdict cfg name)"
proof -
  from assms obtain c d where cfg: "cfg = PDict c" and d: "map_of c outer = Some (PDict d)"
    and cfg': "cfg' = PDict (AList.update outer (PDict (AList.update key v d)) c)"
    by (auto simp add: setitem_in_def bind_Inr_iff getitem_Inr_iff setitem_Inr_iff put_def)
  show ?thesis
    by (simp add: cfg cfg' d subdict_PDict update_conv')
qed

lemma update_in_subdict:
  assumes "update_in cfg outer key [(k, v)] = Inr cfg'"
  shows "\<exists>e. subdict cfg outer key = Some (PDict e) \<and>
     subdict cfg' name = (if name = outer then (subdict cfg outer)(key \<mapsto> PDict (AList.update k v e))
        else subdict cfg name)"
proof -
  from assms obtain c d e where cfg: "cfg = PDict c" and d: "map_of c outer = Some (PDict d)"
    and e: "map_of d key = Some (PDict e)"
    and cfg': "cfg' = PDict (AList.update outer (PDict (AList.update key (PDict (AList.update k v e)) d)) c)"
    by (auto simp add: update_in_def bind_Inr_iff getitem_Inr_iff dict_update_Inr_iff put_def)
  show ?thesis
    by (simp add: cfg cfg' d e subdict_PDict update_conv')
qed

subsection \<open>What each setup call writes\<close>

lemma get_vars_split:
  "get_mwaa_logging_env_vars env source = (log_group_arn env source, log_level env source, logging_enabled env source)"
  by (simp add: log_group_arn_def log_level_def logging_enabled_def)

lemma configure_task_logging_effect:
  assumes "configure_task_logging ext env cfg = Inr cfg'"
  shows "handlers_of cfg' = task_handlers ext env (handlers_of cfg)"
    and "loggers_of cfg' = task_loggers env (loggers_of cfg)"
proof -
  show "handlers_of cfg' = task_handlers ext env (handlers_of cfg)"
  proof (cases "log_group_arn env ''task''")
    case None
    with assms show ?thesis
      by (simp add: configure_task_logging_def get_vars_split task_handlers_def written_def)
  next
    case (Some a)
    with assms obtain c1 where
      c1: "setitem_in cfg ''handlers'' ''task'' (task_handler ext env a (logging_enabled env ''task'')) = Inr c1"
      and c2: "update_in c1 ''loggers'' ''airflow.task'' [(''level'', PStr (log_level env ''task''))] = Inr cfg'"
      by (auto simp add: configure_task_logging_def get_vars_split bind_Inr_iff)
    from update_in_subdict [OF c2, of "''handlers''"] setitem_in_subdict [OF c1, of "''handlers''"] Some
    show ?thesis
      by (auto simp add: handlers_of_def task_handlers_def written_def)
  qed
  show "loggers_of cfg' = task_loggers env (loggers_of cfg)"
  proof (cases "log_group_arn env ''task''")
    case None
    with assms show ?thesis
      by (simp add: configure_task_logging_def get_vars_split task_loggers_def)
  next
    case (Some a)
    with assms obtain c1 where
      c1: "setitem_in cfg ''handlers'' ''task'' (task_handler ext env a (logging_enabled env ''task'')) = Inr c1"
      and c2: "update_in c1 ''loggers'' ''airflow.task'' [(''level'', PStr (log_level env ''task''))] = Inr cfg'"
      by (auto simp add: configure_task_logging_def get_vars_split bind_Inr_iff)
    from update_in_subdict [OF c2, of "''loggers''"] setitem_in_subdict [OF c1, of "''loggers''"] Some
    show ?thesis
      by (auto simp add: loggers_of_def task_loggers_def)
  qed
qed

lemma configure_dag_processing_logging_effect:
  assumes "configure_dag_processing_logging ext env cfg = Inr cfg'"
  shows "handlers_of cfg' = dag_handlers ext env (handlers_of cfg)"
    and "loggers_of cfg' = dag_loggers env (loggers_of cfg)"
proof -
  have "handlers_of cfg' = dag_handlers ext env (handlers_of cfg) \<and>
        loggers_of cfg' = dag_loggers env (loggers_of cfg)"
  proof (cases "log_group_arn env ''dag_processing''")
    case None
    with assms show ?thesis
      by (simp add: configure_dag_processing_logging_def get_vars_split
          dag_handlers_def dag_loggers_def written_def)
  next
    case (Some a)
    with assms obtain c1 c2 c3 where
      c1: "setitem_in cfg ''handlers'' ''processor_manager''
             (processor_manager_handler ext a (logging_enabled env ''dag_processing'')) = Inr c1"
      and c2: "setitem_in c1 ''loggers'' ''airflow.processor_manager''
             (new_logger ''processor_manager'' (log_level env ''dag_processing'')) = Inr c2"
      and c3: "setitem_in c2 ''handlers'' ''processor''
             (processor_handler ext a (logging_enabled env ''dag_processing'')) = Inr c3"
      and c4: "setitem_in c3 ''loggers'' ''airflow.processor''
             (new_logger ''processor'' (log_level env ''dag_processing'')) = Inr cfg'"
      by (auto simp add: configure_dag_processing_logging_def get_vars_split bind_Inr_iff)
    note s = setitem_in_subdict [OF c1] setitem_in_subdict [OF c2]
      setitem_in_subdict [OF c3] setitem_in_subdict [OF c4]
    show ?thesis
      by (simp add: handlers_of_def loggers_of_def dag_handlers_def dag_loggers_def
          written_def Some s)
  qed
  then show "handlers_of cfg' = dag_handlers ext env (handlers_of cfg)"
    and "loggers_of cfg' = dag_loggers env (loggers_of cfg)"
    by simp_all
qed

lemma configure_subprocesses_logging_effect:
  assumes "configure_subprocesses_logging ext name arn lvl en cfg = Inr cfg'"
  shows "handlers_of cfg' =
           written arn (''mwaa_'' @ name) (\<lambda>a. subprocess_handler ext name a en) (handlers_of cfg)"
    and "loggers_of cfg' =
           written arn (''mwaa.'' @ name) (\<lambda>a. new_logger (''mwaa_'' @ name) lvl) (loggers_of cfg)"
proof -
  have "handlers_of cfg' =
           written arn (''mwaa_'' @ name) (\<lambda>a. subprocess_handler ext name a en) (handlers_of cfg) \<and>
        loggers_of cfg' =
           written arn (''mwaa.'' @ name) (\<lambda>a. new_logger (''mwaa_'' @ name) lvl) (loggers_of cfg)"
  proof (cases arn)
    case None
    with assms show ?thesis
      by (simp add: configure_subprocesses_logging_def Let_def written_def)
  next
    case (Some a)
    with assms obtain c1 where
      c1: "setitem_in cfg ''handlers'' (''mwaa_'' @ name) (subprocess_handler ext name a en) = Inr c1"
      and c2: "setitem_in c1 ''loggers'' (''mwaa.'' @ name) (new_logger (''mwaa_'' @ name) lvl) = Inr cfg'"
      by (auto simp add: configure_subprocesses_logging_def Let_def bind_Inr_iff)
    note s = setitem_in_subdict [OF c1] setitem_in_subdict [OF c2]
    show ?thesis
      by (simp add: handlers_of_def loggers_of_def written_def Some s)
  qed
  then show "handlers_of cfg' =
           written arn (''mwaa_'' @ name) (\<lambda>a. subprocess_handler ext name a en) (handlers_of cfg)"
    and "loggers_of cfg' =
           written arn (''mwaa.'' @ name) (\<lambda>a. new_logger (''mwaa_'' @ name) lvl) (loggers_of cfg)"
    by simp_all
qed

lemma configure_components_effect:
  "configure_components ext env cs cfg = Inr cfg' \<Longrightarrow>
     handlers_of cfg' = fold (component_handlers ext env) cs (handlers_of cfg) \<and>
     loggers_of cfg' = fold (component_loggers env) cs (loggers_of cfg)"
proof (induction cs arbitrary: cfg)
  case Nil
  then show ?case by simp
next
  case (Cons c cs)
  from Cons.prems obtain c1 c2 where
    c1: "configure_subprocesses_logging ext c
           (log_group_arn env c) (log_level env c) (logging_enabled env c) cfg = Inr c1"
    and c2: "configure_subprocesses_logging ext (c @ ''_requirements'')
           (log_group_arn env c) (log_level env c) (logging_enabled env c) c1 = Inr c2"
    and rest: "configure_components ext env cs c2 = Inr cfg'"
    by (auto simp add: get_vars_split bind_Inr_iff)
  note e1 = configure_subprocesses_logging_effect [OF c1]
  note e2 = configure_subprocesses_logging_effect [OF c2]
  from Cons.IH [OF rest] show ?case
    by (simp add: e1 e2 component_handlers_def component_loggers_def)
qed

lemma configure_effect:
  assumes "configure ext env cfg = Inr cfg'"
  shows "handlers_of cfg' = handlers_after ext env (handlers_of cfg)"
    and "loggers_of cfg' = loggers_after env (loggers_of cfg)"
proof -
  from assms obtain c1 c2 where
    c1: "configure_task_logging ext env cfg = Inr c1"
    and c2: "configure_dag_processing_logging ext env c1 = Inr c2"
    and c3: "configure_components ext env [''worker'', ''scheduler'', ''webserver''] c2 = Inr cfg'"
    by (auto simp add: configure_def bind_Inr_iff)
  note e = configure_task_logging_effect [OF c1] configure_dag_processing_logging_effect [OF c2]
  from configure_components_effect [OF c3]
  show "handlers_of cfg' = handlers_after ext env (handlers_of cfg)"
    and "loggers_of cfg' = loggers_after env (loggers_of cfg)"
    by (simp_all only: e handlers_after_def loggers_after_def)
qed

lemma module_load_effect:
  assumes "module_load ext env = Inr cfg'"
  shows "handlers_of cfg' = handlers_after ext env (handlers_of (DEFAULT_LOGGING_CONFIG ext))"
    and "loggers_of cfg' = loggers_after env (loggers_of (DEFAULT_LOGGING_CONFIG ext))"
proof -
  from assms have "configure ext env (DEFAULT_LOGGING_CONFIG ext) = Inr cfg'"
    by (auto simp add: module_load_def bind_Inr_iff LOGGING_CONFIG_init_def split: pyval.splits)
  from configure_effect [OF this]
  show "handlers_of cfg' = handlers_after ext env (handlers_of (DEFAULT_LOGGING_CONFIG ext))"
    and "loggers_of cfg' = loggers_after env (loggers_of (DEFAULT_LOGGING_CONFIG ext))"
    by simp_all
qed

subsection \<open>Upper and lower case\<close>

lemma table_lookup_eq_iff:
  assumes "distinct xs" and "length xs = length ys"
  shows "(case map_of (zip xs ys) c of Some d \<Rightarrow> d | None \<Rightarrow> c) = x \<longleftrightarrow>
         (c, x) \<in> set (zip xs ys) \<or> (c \<notin> set xs \<and> c = x)"
proof (cases "map_of (zip xs ys) c")
  case None
  then have "c \<notin> set (map fst (zip xs ys))"
    by (simp add: map_of_eq_None_iff)
  then have "c \<notin> set xs"
    using assms(2) by simp
  moreover from this have "(c, x) \<notin> set (zip xs ys)"
    by (auto dest: set_zip_leftD)
  ultimately show ?thesis using None by simp
next
  case (Some d)
  from assms have dist: "distinct (map fst (zip xs ys))" by simp
  from Some have "(c, d) \<in> set (zip xs ys)" by (rule map_of_SomeD)
  then have "c \<in> set xs" by (rule set_zip_leftD)
  moreover have "(c, x) \<in> set (zip xs ys) \<longleftrightarrow> d = x"
    using Some map_of_eq_Some_iff [OF dist, of c x] by auto
  ultimately show ?thesis using Some by simp
qed

lemma lower_char_eq_iff:
  "lower_char c = x \<longleftrightarrow>
     (c, x) \<in> set (zip ''ABCDEFGHIJKLMNOPQRSTUVWXYZ'' ''abcdefghijklmnopqrstuvwxyz'') \<or>
     (c \<notin> set ''ABCDEFGHIJKLMNOPQRSTUVWXYZ'' \<and> c = x)"
  unfolding lower_char_def by (rule table_lookup_eq_iff) simp_all

lemma lower_char_true:
  "lower_char c = CHR ''t'' \<longleftrightarrow> c = CHR ''t'' \<or> c = CHR ''T''"
  "lower_char c = CHR ''r'' \<longleftrightarrow> c = CHR ''r'' \<or> c = CHR ''R''"
  "lower_char c = CHR ''u'' \<longleftrightarrow> c = CHR ''u'' \<or> c = CHR ''U''"
  "lower_char c = CHR ''e'' \<longleftrightarrow> c = CHR ''e'' \<or> c = CHR ''E''"
  unfolding lower_char_eq_iff by auto

lemma lower_true_iff: "lower v = ''true'' \<longleftrightarrow> v \<in> set true_spellings"
proof -
  have "lower v = ''true'' \<longleftrightarrow>
      (\<exists>a b c d. v = [a, b, c, d] \<and> lower_char a = CHR ''t'' \<and> lower_char b = CHR ''r'' \<and>
         lower_char c = CHR ''u'' \<and> lower_char d = CHR ''e'')"
    by (auto simp add: lower_def map_eq_Cons_conv)
  also have "\<dots> \<longleftrightarrow> v \<in> set true_spellings"
    unfolding lower_char_true by (auto simp add: true_spellings_def)
  finally show ?thesis .
qed

subsection \<open>The entry under each name after loading\<close>

lemma written_apply:
  "written arn name entry m k =
     (if k = name then (case arn of None \<Rightarrow> m k | Some a \<Rightarrow> Some (entry a)) else m k)"
  by (simp add: written_def split: option.splits)

lemma log_group_arn_variables:
  "env_var ''task'' ''_LOG_GROUP_ARN'' = ''MWAA__LOGGING__AIRFLOW_TASK_LOG_GROUP_ARN''"
  "env_var ''dag_processing'' ''_LOG_GROUP_ARN'' =
     ''MWAA__LOGGING__AIRFLOW_DAG_PROCESSING_LOG_GROUP_ARN''"
  "env_var ''worker'' ''_LOG_GROUP_ARN'' = ''MWAA__LOGGING__AIRFLOW_WORKER_LOG_GROUP_ARN''"
  "env_var ''scheduler'' ''_LOG_GROUP_ARN'' = ''MWAA__LOGGING__AIRFLOW_SCHEDULER_LOG_GROUP_ARN''"
  "env_var ''webserver'' ''_LOG_GROUP_ARN'' = ''MWAA__LOGGING__AIRFLOW_WEBSERVER_LOG_GROUP_ARN''"
  by (simp_all add: env_var_def upper_def upper_char_def)

lemma log_group_arn_eq: "log_group_arn env source = env (env_var source ''_LOG_GROUP_ARN'')"
  by (simp add: log_group_arn_def get_mwaa_logging_env_vars_def Let_def)

lemma log_level_eq:
  "log_level env source =
     (case env (env_var source ''_LOG_LEVEL'') of None \<Rightarrow> ''INFO'' | Some v \<Rightarrow> v)"
  by (simp add: log_level_def get_mwaa_logging_env_vars_def Let_def INFO_level_name_def
      split: option.splits)

lemma logging_enabled_eq:
  "logging_enabled env source =
     (case env (env_var source ''_LOGS_ENABLED'') of None \<Rightarrow> False | Some v \<Rightarrow> v \<in> set true_spellings)"
proof -
  have "''false'' \<notin> set true_spellings"
    by (simp add: true_spellings_def)
  then show ?thesis
    by (simp add: logging_enabled_def get_mwaa_logging_env_vars_def Let_def lower_true_iff
        split: option.splits)
qed

lemmas after_defs = handlers_after_def loggers_after_def task_handlers_def dag_handlers_def
  component_handlers_def dag_loggers_def component_loggers_def written_apply

lemma handlers_after_task:
  "handlers_after ext env m ''task'' =
     (case log_group_arn env ''task'' of
        None \<Rightarrow> m ''task''
      | Some a \<Rightarrow> Some (task_handler ext env a (logging_enabled env ''task'')))"
  by (simp add: after_defs)

lemma handlers_after_dag:
  "handlers_after ext env m ''processor_manager'' =
     (case log_group_arn env ''dag_processing'' of
        None \<Rightarrow> m ''processor_manager''
      | Some a \<Rightarrow> Some (processor_manager_handler ext a (logging_enabled env ''dag_processing'')))"
  "handlers_after ext env m ''processor'' =
     (case log_group_arn env ''dag_processing'' of
        None \<Rightarrow> m ''processor''
      | Some a \<Rightarrow> Some (processor_handler ext a (logging_enabled env ''dag_processing'')))"
  by (simp_all add: after_defs cong: option.case_cong)

lemma handlers_after_component:
  assumes "c \<in> set [''worker'', ''scheduler'', ''webserver'']"
  shows "handlers_after ext env m (''mwaa_'' @ c) =
     (case log_group_arn env c of
        None \<Rightarrow> m (''mwaa_'' @ c)
      | Some a \<Rightarrow> Some (subprocess_handler ext c a (logging_enabled env c)))"
    and "handlers_after ext env m (''mwaa_'' @ c @ ''_requirements'') =
     (case log_group_arn env c of
        None \<Rightarrow> m (''mwaa_'' @ c @ ''_requirements'')
      | Some a \<Rightarrow> Some (subprocess_handler ext (c @ ''_requirements'') a (logging_enabled env c)))"
proof -
  from assms consider "c = ''worker''" | "c = ''scheduler''" | "c = ''webserver''"
    by auto
  then have "handlers_after ext env m (''mwaa_'' @ c) =
     (case log_group_arn env c of
        None \<Rightarrow> m (''mwaa_'' @ c)
      | Some a \<Rightarrow> Some (subprocess_handler ext c a (logging_enabled env c))) \<and>
     handlers_after ext env m (''mwaa_'' @ c @ ''_requirements'') =
     (case log_group_arn env c of
        None \<Rightarrow> m (''mwaa_'' @ c @ ''_requirements'')
      | Some a \<Rightarrow> Some (subprocess_handler ext (c @ ''_requirements'') a (logging_enabled env c)))"
    by cases (simp_all add: after_defs cong: option.case_cong)
  then show "handlers_after ext env m (''mwaa_'' @ c) =
     (case log_group_arn env c of
        None \<Rightarrow> m (''mwaa_'' @ c)
      | Some a \<Rightarrow> Some (subprocess_handler ext c a (logging_enabled env c)))"
    and "handlers_after ext env m (''mwaa_'' @ c @ ''_requirements'') =
     (case log_group_arn env c of
        None \<Rightarrow> m (''mwaa_'' @ c @ ''_requirements'')
      | Some a \<Rightarrow> Some (subprocess_handler ext (c @ ''_requirements'') a (logging_enabled env c)))"
    by simp_all
qed

lemma task_loggers_apply:
  "task_loggers env m l =
     (if l = ''airflow.task'' then
        (case log_group_arn env ''task'' of
           None \<Rightarrow> m l
         | Some a \<Rightarrow>
            (case m l of
               Some (PDict e) \<Rightarrow> Some (PDict (AList.update ''level'' (PStr (log_level env ''task'')) e))
             | _ \<Rightarrow> m l))
      else m l)"
  by (simp add: task_loggers_def split: option.split pyval.split)

lemma loggers_after_task:
  "loggers_after env m ''airflow.task'' = task_loggers env m ''airflow.task''"
  by (simp add: after_defs)

lemma loggers_after_dag:
  "loggers_after env m ''airflow.processor_manager'' =
     (case log_group_arn env ''dag_processing'' of
        None \<Rightarrow> m ''airflow.processor_manager''
      | Some a \<Rightarrow> Some (new_logger ''processor_manager'' (log_level env ''dag_processing'')))"
  "loggers_after env m ''airflow.processor'' =
     (case log_group_arn env ''dag_processing'' of
        None \<Rightarrow> m ''airflow.processor''
      | Some a \<Rightarrow> Some (new_logger ''processor'' (log_level env ''dag_processing'')))"
  by (simp_all add: after_defs task_loggers_apply cong: option.case_cong)

lemma loggers_after_component:
  assumes "c \<in> set [''worker'', ''scheduler'', ''webserver'']"
  shows "loggers_after env m (''mwaa.'' @ c) =
     (case log_group_arn env c of
        None \<Rightarrow> m (''mwaa.'' @ c)
      | Some a \<Rightarrow> Some (new_logger (''mwaa_'' @ c) (log_level env c)))"
    and "loggers_after env m (''mwaa.'' @ c @ ''_requirements'') =
     (case log_group_arn env c of
        None \<Rightarrow> m (''mwaa.'' @ c @ ''_requirements'')
      | Some a \<Rightarrow> Some (new_logger (''mwaa_'' @ c @ ''_requirements'') (log_level env c)))"
proof -
  from assms consider "c = ''worker''" | "c = ''scheduler''" | "c = ''webserver''"
    by auto
  then have "loggers_after env m (''mwaa.'' @ c) =
     (case log_group_arn env c of
        None \<Rightarrow> m (''mwaa.'' @ c)
      | Some a \<Rightarrow> Some (new_logger (''mwaa_'' @ c) (log_level env c))) \<and>
     loggers_after env m (''mwaa.'' @ c @ ''_requirements'') =
     (case log_group_arn env c of
        None \<Rightarrow> m (''mwaa.'' @ c @ ''_requirements'')
      | Some a \<Rightarrow> Some (new_logger (''mwaa_'' @ c @ ''_requirements'') (log_level env c)))"
    by cases (simp_all add: after_defs task_loggers_apply cong: option.case_cong)
  then show "loggers_after env m (''mwaa.'' @ c) =
     (case log_group_arn env c of
        None \<Rightarrow> m (''mwaa.'' @ c)
      | Some a \<Rightarrow> Some (new_logger (''mwaa_'' @ c) (log_level env c)))"
    and "loggers_after env m (''mwaa.'' @ c @ ''_requirements'') =
     (case log_group_arn env c of
        None \<Rightarrow> m (''mwaa.'' @ c @ ''_requirements'')
      | Some a \<Rightarrow> Some (new_logger (''mwaa_'' @ c @ ''_requirements'') (log_level env c)))"
    by simp_all
qed

subsection \<open>Loading succeeds on a well-formed default configuration\<close>

lemma is_dict_iff: "is_dict v \<longleftrightarrow> (\<exists>d. v = PDict d)"
  by (cases v) simp_all

lemma has_dict_iff:
  "has_dict obj key \<longleftrightarrow> (\<exists>c d. obj = PDict c \<and> map_of c key = Some (PDict d))"
  by (cases obj) (auto simp add: has_dict_def is_dict_iff getitem_def split: option.splits)

lemma well_formed_iff:
  "well_formed cfg \<longleftrightarrow>
     (\<exists>c h l t. cfg = PDict c \<and> map_of c ''handlers'' = Some (PDict h) \<and>
        map_of c ''loggers'' = Some (PDict l) \<and> map_of l ''airflow.task'' = Some (PDict t))"
  by (cases cfg) (auto simp add: well_formed_def has_dict_iff getitem_def split: option.splits)

lemma setitem_in_handlers_total:
  assumes "well_formed cfg"
  shows "\<exists>cfg'. setitem_in cfg ''handlers'' k v = Inr cfg' \<and> well_formed cfg'"
proof -
  from assms obtain c h l t where "cfg = PDict c" "map_of c ''handlers'' = Some (PDict h)"
    "map_of c ''loggers'' = Some (PDict l)" "map_of l ''airflow.task'' = Some (PDict t)"
    by (auto simp add: well_formed_iff)
  then show ?thesis
    by (simp add: setitem_in_def getitem_def setitem_def put_def bind_def well_formed_iff update_conv')
qed

lemma setitem_in_loggers_total:
  assumes "well_formed cfg"
  shows "\<exists>cfg'. setitem_in cfg ''loggers'' k (PDict e) = Inr cfg' \<and> well_formed cfg'"
proof -
  from assms obtain c h l t where "cfg = PDict c" "map_of c ''handlers'' = Some (PDict h)"
    "map_of c ''loggers'' = Some (PDict l)" "map_of l ''airflow.task'' = Some (PDict t)"
    by (auto simp add: well_formed_iff)
  then show ?thesis
    by (simp add: setitem_in_def getitem_def setitem_def put_def bind_def well_formed_iff update_conv')
qed

lemma update_in_task_total:
  assumes "well_formed cfg"
  shows "\<exists>cfg'. update_in cfg ''loggers'' ''airflow.task'' [(k, v)] = Inr cfg' \<and> well_formed cfg'"
proof -
  from assms obtain c h l t where "cfg = PDict c" "map_of c ''handlers'' = Some (PDict h)"
    "map_of c ''loggers'' = Some (PDict l)" "map_of l ''airflow.task'' = Some (PDict t)"
    by (auto simp add: well_formed_iff)
  then show ?thesis
    by (simp add: update_in_def getitem_def dict_update_def put_def bind_def well_formed_iff update_conv')
qed

lemma configure_task_logging_total:
  assumes "well_formed cfg"
  shows "\<exists>cfg'. configure_task_logging ext env cfg = Inr cfg' \<and> well_formed cfg'"
proof (cases "log_group_arn env ''task''")
  case None
  with assms show ?thesis
    by (simp add: configure_task_logging_def get_vars_split)
next
  case (Some a)
  from setitem_in_handlers_total [OF assms] obtain c1 where
    c1: "setitem_in cfg ''handlers'' ''task'' (task_handler ext env a (logging_enabled env ''task'')) = Inr c1"
    and w1: "well_formed c1" by blast
  from update_in_task_total [OF w1] obtain c2 where
    "update_in c1 ''loggers'' ''airflow.task'' [(''level'', PStr (log_level env ''task''))] = Inr c2"
    and "well_formed c2" by blast
  with c1 Some show ?thesis
    by (simp add: configure_task_logging_def get_vars_split bind_def)
qed

lemma configure_dag_processing_logging_total:
  assumes "well_formed cfg"
  shows "\<exists>cfg'. configure_dag_processing_logging ext env cfg = Inr cfg' \<and> well_formed cfg'"
proof (cases "log_group_arn env ''dag_processing''")
  case None
  with assms show ?thesis
    by (simp add: configure_dag_processing_logging_def get_vars_split)
next
  case (Some a)
  from setitem_in_handlers_total [OF assms] obtain c1 where
    c1: "setitem_in cfg ''handlers'' ''processor_manager''
           (processor_manager_handler ext a (logging_enabled env ''dag_processing'')) = Inr c1"
    and w1: "well_formed c1" by blast
  from setitem_in_loggers_total [OF w1] obtain c2 where
    c2: "setitem_in c1 ''loggers'' ''airflow.processor_manager''
           (new_logger ''processor_manager'' (log_level env ''dag_processing'')) = Inr c2"
    and w2: "well_formed c2" unfolding new_logger_def by blast
  from setitem_in_handlers_total [OF w2] obtain c3 where
    c3: "setitem_in c2 ''handlers'' ''processor''
           (processor_handler ext a (logging_enabled env ''dag_processing'')) = Inr c3"
    and w3: "well_formed c3" by blast
  from setitem_in_loggers_total [OF w3] obtain c4 where
    "setitem_in c3 ''loggers'' ''airflow.processor''
           (new_logger ''processor'' (log_level env ''dag_processing'')) = Inr c4"
    and "well_formed c4" unfolding new_logger_def by blast
  with c1 c2 c3 Some show ?thesis
    by (simp add: configure_dag_processing_logging_def get_vars_split bind_def)
qed

lemma configure_subprocesses_logging_total:
  assumes "well_formed cfg"
  shows "\<exists>cfg'. configure_subprocesses_logging ext name arn lvl en cfg = Inr cfg' \<and> well_formed cfg'"
proof (cases arn)
  case None
  with assms show ?thesis
    by (simp add: configure_subprocesses_logging_def)
next
  case (Some a)
  from setitem_in_handlers_total [OF assms] obtain c1 where
    c1: "setitem_in cfg ''handlers'' (''mwaa_'' @ name) (subprocess_handler ext name a en) = Inr c1"
    and w1: "well_formed c1" by blast
  from setitem_in_loggers_total [OF w1] obtain c2 where
    "setitem_in c1 ''loggers'' (''mwaa.'' @ name) (new_logger (''mwaa_'' @ name) lvl) = Inr c2"
    and "well_formed c2" unfolding new_logger_def by blast
  with c1 Some show ?thesis
    by (simp add: configure_subprocesses_logging_def bind_def)
qed

lemma configure_components_total:
  "well_formed cfg \<Longrightarrow> \<exists>cfg'. configure_components ext env cs cfg = Inr cfg' \<and> well_formed cfg'"
proof (induction cs arbitrary: cfg)
  case Nil
  then show ?case by simp
next
  case (Cons c cs)
  from configure_subprocesses_logging_total [OF Cons.prems] obtain c1 where
    c1: "configure_subprocesses_logging ext c
           (log_group_arn env c) (log_level env c) (logging_enabled env c) cfg = Inr c1"
    and w1: "well_formed c1" by blast
  from configure_subprocesses_logging_total [OF w1] obtain c2 where
    c2: "configure_subprocesses_logging ext (c @ ''_requirements'')
           (log_group_arn env c) (log_level env c) (logging_enabled env c) c1 = Inr c2"
    and w2: "well_formed c2" by blast
  from Cons.IH [OF w2] c1 c2 show ?case
    by (simp add: get_vars_split bind_def)
qed

lemma configure_total:
  assumes "well_formed cfg"
  shows "\<exists>cfg'. configure ext env cfg = Inr cfg' \<and> well_formed cfg'"
proof -
  from configure_task_logging_total [OF assms] obtain c1 where
    c1: "configure_task_logging ext env cfg = Inr c1" and w1: "well_formed c1" by blast
  from configure_dag_processing_logging_total [OF w1] obtain c2 where
    c2: "configure_dag_processing_logging ext env c1 = Inr c2" and w2: "well_formed c2" by blast
  from configure_components_total [OF w2, of ext env "[''worker'', ''scheduler'', ''webserver'']"]
    c1 c2 show ?thesis
    by (simp only: configure_def bind_def sum.case)
qed

lemma module_load_total:
  assumes "well_formed (DEFAULT_LOGGING_CONFIG ext)"
  shows "\<exists>cfg'. module_load ext env = Inr cfg' \<and> well_formed cfg'"
proof -
  from assms obtain c where "DEFAULT_LOGGING_CONFIG ext = PDict c"
    by (auto simp add: well_formed_iff)
  with configure_total [OF assms] show ?thesis
    by (simp add: module_load_def LOGGING_CONFIG_init_def bind_def)
qed

lemma module_load_projr:
  "well_formed (DEFAULT_LOGGING_CONFIG ext) \<Longrightarrow> module_load ext env = Inr (projr (module_load ext env))"
  using module_load_total [of ext env] by auto

subsection \<open>The names of a source\<close>

lemma registered_cases [consumes 2, case_names task processor_manager processor component requirements]:
  assumes "source \<in> set sources" and "(h, l) \<in> set (registrations source)"
  obtains "source = ''task''" "h = ''task''" "l = ''airflow.task''"
  | "source = ''dag_processing''" "h = ''processor_manager''" "l = ''airflow.processor_manager''"
  | "source = ''dag_processing''" "h = ''processor''" "l = ''airflow.processor''"
  | "source \<in> set [''worker'', ''scheduler'', ''webserver'']"
      "h = ''mwaa_'' @ source" "l = ''mwaa.'' @ source"
  | "source \<in> set [''worker'', ''scheduler'', ''webserver'']"
      "h = ''mwaa_'' @ source @ ''_requirements''" "l = ''mwaa.'' @ source @ ''_requirements''"
proof -
  from assms(1) consider "source = ''task''" | "source = ''dag_processing''"
    | "source = ''worker''" | "source = ''scheduler''" | "source = ''webserver''"
    by (auto simp add: sources_def)
  then show thesis
  proof cases
    case 1
    with assms(2) that(1) show thesis by (simp add: registrations_def)
  next
    case 2
    with assms(2) that(2,3) show thesis by (auto simp add: registrations_def)
  next
    case 3
    with assms(2) that(4,5) show thesis by (auto simp add: registrations_def)
  next
    case 4
    with assms(2) that(4,5) show thesis by (auto simp add: registrations_def)
  next
    case 5
    with assms(2) that(4,5) show thesis by (auto simp add: registrations_def)
  qed
qed

lemma well_formed_airflow_defaults: "well_formed (DEFAULT_LOGGING_CONFIG airflow_defaults)"
  by (simp add: well_formed_def has_dict_def getitem_def airflow_defaults_def)

lemmas env_var_simps = env_var_def upper_def upper_char_def

lemma configure_task_logging_logger:
  assumes "configure_task_logging ext env cfg = Inr cfg'"
    and "log_group_arn env ''task'' = Some a"
  shows "\<exists>e. loggers_of cfg ''airflow.task'' = Some (PDict e)"
proof -
  from assms obtain c1 where
    c1: "setitem_in cfg ''handlers'' ''task'' (task_handler ext env a (logging_enabled env ''task'')) = Inr c1"
    and c2: "update_in c1 ''loggers'' ''airflow.task'' [(''level'', PStr (log_level env ''task''))] = Inr cfg'"
    by (auto simp add: configure_task_logging_def get_vars_split bind_Inr_iff)
  from update_in_subdict [OF c2, of "''loggers''"] setitem_in_subdict [OF c1, of "''loggers''"]
  show ?thesis
    by (auto simp add: loggers_of_def)
qed

lemma module_load_configure:
  assumes "module_load ext env = Inr cfg'"
  shows "configure ext env (DEFAULT_LOGGING_CONFIG ext) = Inr cfg'"
  using assms
  by (auto simp add: module_load_def bind_Inr_iff LOGGING_CONFIG_init_def split: pyval.splits)

lemma module_load_task_logger:
  assumes "module_load ext env = Inr cfg'"
    and "log_group_arn env ''task'' = Some a"
  shows "\<exists>e. loggers_of (DEFAULT_LOGGING_CONFIG ext) ''airflow.task'' = Some (PDict e)"
proof -
  from module_load_configure [OF assms(1)] obtain c1 where
    "configure_task_logging ext env (DEFAULT_LOGGING_CONFIG ext) = Inr c1"
    by (auto simp add: configure_def bind_Inr_iff)
  then show ?thesis using assms(2) by (rule configure_task_logging_logger)
qed

lemma registered_handler:
  assumes "module_load ext env = Inr cfg'"
    and "source \<in> set sources"
    and "(h, l) \<in> set (registrations source)"
    and "log_group_arn env source = Some arn"
  shows "handlers_of cfg' h = Some (task_handler ext env arn (logging_enabled env source)) \<or>
         handlers_of cfg' h = Some (processor_manager_handler ext arn (logging_enabled env source)) \<or>
         handlers_of cfg' h = Some (processor_handler ext arn (logging_enabled env source)) \<or>
         handlers_of cfg' h = Some (subprocess_handler ext source arn (logging_enabled env source)) \<or>
         handlers_of cfg' h =
           Some (subprocess_handler ext (source @ ''_requirements'') arn (logging_enabled env source))"
proof -
  note eff = module_load_effect(1) [OF assms(1)]
  note arn = assms(4)
  from assms(2,3) show ?thesis
  proof (cases rule: registered_cases)
    case task
    with arn show ?thesis
      by (simp add: eff handlers_after_task)
  next
    case processor_manager
    with arn show ?thesis
      by (simp add: eff handlers_after_dag)
  next
    case processor
    with arn show ?thesis
      by (simp add: eff handlers_after_dag)
  next
    case component
    have "handlers_of cfg' h = Some (subprocess_handler ext source arn (logging_enabled env source))"
      unfolding eff component(2)
      by (simp only: handlers_after_component(1) [OF component(1)] arn option.case)
    then show ?thesis by simp
  next
    case requirements
    have "handlers_of cfg' h =
        Some (subprocess_handler ext (source @ ''_requirements'') arn (logging_enabled env source))"
      unfolding eff requirements(2)
      by (simp only: handlers_after_component(2) [OF requirements(1)] arn option.case)
    then show ?thesis by simp
  qed
qed

lemma registered_new_logger:
  assumes "module_load ext env = Inr cfg'"
    and "source \<in> set sources"
    and "(h, l) \<in> set (registrations source)"
    and "log_group_arn env source = Some arn"
    and "source \<noteq> ''task''"
  shows "loggers_of cfg' l = Some (new_logger h (log_level env source))"
proof -
  note eff = module_load_effect(2) [OF assms(1)]
  note arn = assms(4)
  from assms(2,3) show ?thesis
  proof (cases rule: registered_cases)
    case task
    with assms(5) show ?thesis by simp
  next
    case processor_manager
    with arn show ?thesis
      by (simp add: eff loggers_after_dag)
  next
    case processor
    with arn show ?thesis
      by (simp add: eff loggers_after_dag)
  next
    case component
    show ?thesis
      unfolding eff component(2,3)
      by (simp only: loggers_after_component(1) [OF component(1)] arn option.case)
  next
    case requirements
    show ?thesis
      unfolding eff requirements(2,3)
      by (simp only: loggers_after_component(2) [OF requirements(1)] arn option.case)
  qed
qed

lemma task_logger_updated:
  assumes "module_load ext env = Inr cfg'"
    and "log_group_arn env ''task'' = Some arn"
  shows "\<exists>e. loggers_of (DEFAULT_LOGGING_CONFIG ext) ''airflow.task'' = Some (PDict e) \<and>
           loggers_of cfg' ''airflow.task'' =
             Some (PDict (AList.update ''level'' (PStr (log_level env ''task'')) e))"
proof -
  from module_load_task_logger [OF assms] obtain e where
    e: "loggers_of (DEFAULT_LOGGING_CONFIG ext) ''airflow.task'' = Some (PDict e)" by blast
  then show ?thesis
    by (simp add: module_load_effect(2) [OF assms(1)] loggers_after_task task_loggers_apply assms(2))
qed

lemma registered_unset:
  assumes "module_load ext env = Inr cfg'"
    and "source \<in> set sources"
    and "(h, l) \<in> set (registrations source)"
    and "log_group_arn env source = None"
  shows "handlers_of cfg' h = handlers_of (DEFAULT_LOGGING_CONFIG ext) h"
    and "loggers_of cfg' l = loggers_of (DEFAULT_LOGGING_CONFIG ext) l"
proof -
  note eff = module_load_effect [OF assms(1)]
  note arn = assms(4)
  from assms(2,3)
  have "handlers_of cfg' h = handlers_of (DEFAULT_LOGGING_CONFIG ext) h \<and>
        loggers_of cfg' l = loggers_of (DEFAULT_LOGGING_CONFIG ext) l"
  proof (cases rule: registered_cases)
    case task
    with arn show ?thesis
      by (simp add: eff handlers_after_task loggers_after_task task_loggers_apply)
  next
    case processor_manager
    with arn show ?thesis
      by (simp add: eff handlers_after_dag loggers_after_dag)
  next
    case processor
    with arn show ?thesis
      by (simp add: eff handlers_after_dag loggers_after_dag)
  next
    case component
    show ?thesis
      unfolding eff component(2,3)
      by (simp only: handlers_after_component(1) [OF component(1)]
          loggers_after_component(1) [OF component(1)] arn option.case simp_thms)
  next
    case requirements
    show ?thesis
      unfolding eff requirements(2,3)
      by (simp only: handlers_after_component(2) [OF requirements(1)]
          loggers_after_component(2) [OF requirements(1)] arn option.case simp_thms)
  qed
  then show "handlers_of cfg' h = handlers_of (DEFAULT_LOGGING_CONFIG ext) h"
    and "loggers_of cfg' l = loggers_of (DEFAULT_LOGGING_CONFIG ext) l"
    by simp_all
qed

lemmas handler_defs = task_handler_def processor_manager_handler_def processor_handler_def
  subprocess_handler_def

lemma configure_dag_processing_logging_projr:
  "well_formed cfg \<Longrightarrow>
   configure_dag_processing_logging ext env cfg =
     Inr (projr (configure_dag_processing_logging ext env cfg))"
  using configure_dag_processing_logging_total [of cfg ext env] by auto

subsection \<open>The names in the loaded configuration\<close>

lemma dom_written:
  "dom (written a n e m) = (if a = None then dom m else insert n (dom m))"
  by (cases a) (simp_all add: written_def)

lemma dom_task_loggers: "dom (task_loggers env m) = dom m"
  by (auto simp add: task_loggers_def split: option.splits pyval.splits)

subsection \<open>What the setup calls keep\<close>

lemma bind_Inr_right: "bind m Inr = m"
  by (cases m) (simp_all add: bind_def)

lemma map_of_Some_key: "map_of d k = Some v \<Longrightarrow> k \<in> set (map fst d)"
  by (metis map_of_eq_None_iff option.distinct(1) set_map)

lemma setitem_in_kept:
  assumes "setitem_in cfg outer key v = Inr cfg'"
  shows "top_keys cfg' = top_keys cfg"
    and "k \<noteq> outer \<Longrightarrow> getitem cfg' k = getitem cfg k"
proof -
  from assms obtain c d where cfg: "cfg = PDict c" and d: "map_of c outer = Some (PDict d)"
    and cfg': "cfg' = PDict (AList.update outer (PDict (AList.update key v d)) c)"
    by (auto simp add: setitem_in_def bind_Inr_iff getitem_Inr_iff setitem_Inr_iff put_def)
  from d have "outer \<in> set (map fst c)" by (rule map_of_Some_key)
  then show "top_keys cfg' = top_keys cfg"
    by (simp add: cfg cfg' top_keys_def update_keys)
  show "k \<noteq> outer \<Longrightarrow> getitem cfg' k = getitem cfg k"
    by (simp add: cfg cfg' getitem_def update_conv')
qed

lemma update_in_kept:
  assumes "update_in cfg outer key [(x, v)] = Inr cfg'"
  shows "top_keys cfg' = top_keys cfg"
    and "k \<noteq> outer \<Longrightarrow> getitem cfg' k = getitem cfg k"
proof -
  from assms obtain c d e where cfg: "cfg = PDict c" and d: "map_of c outer = Some (PDict d)"
    and cfg': "cfg' = PDict (AList.update outer (PDict (AList.update key (PDict (AList.update x v e)) d)) c)"
    by (auto simp add: update_in_def bind_Inr_iff getitem_Inr_iff dict_update_Inr_iff put_def)
  from d have "outer \<in> set (map fst c)" by (rule map_of_Some_key)
  then show "top_keys cfg' = top_keys cfg"
    by (simp add: cfg cfg' top_keys_def update_keys)
  show "k \<noteq> outer \<Longrightarrow> getitem cfg' k = getitem cfg k"
    by (simp add: cfg cfg' getitem_def update_conv')
qed

lemma configure_task_logging_kept:
  assumes "configure_task_logging ext env cfg = Inr cfg'"
  shows "top_keys cfg' = top_keys cfg"
    and "k \<noteq> ''handlers'' \<Longrightarrow> k \<noteq> ''loggers'' \<Longrightarrow> getitem cfg' k = getitem cfg k"
proof -
  have "top_keys cfg' = top_keys cfg \<and>
      (k \<noteq> ''handlers'' \<longrightarrow> k \<noteq> ''loggers'' \<longrightarrow> getitem cfg' k = getitem cfg k)"
  proof (cases "log_group_arn env ''task''")
    case None
    with assms show ?thesis
      by (simp add: configure_task_logging_def get_vars_split)
  next
    case (Some a)
    with assms obtain c1 where
      c1: "setitem_in cfg ''handlers'' ''task'' (task_handler ext env a (logging_enabled env ''task'')) = Inr c1"
      and c2: "update_in c1 ''loggers'' ''airflow.task'' [(''level'', PStr (log_level env ''task''))] = Inr cfg'"
      by (auto simp add: configure_task_logging_def get_vars_split bind_Inr_iff)
    show ?thesis
      by (simp add: setitem_in_kept [OF c1] update_in_kept [OF c2])
  qed
  then show "top_keys cfg' = top_keys cfg"
    and "k \<noteq> ''handlers'' \<Longrightarrow> k \<noteq> ''loggers'' \<Longrightarrow> getitem cfg' k = getitem cfg k"
    by simp_all
qed

lemma configure_dag_processing_logging_kept:
  assumes "configure_dag_processing_logging ext env cfg = Inr cfg'"
  shows "top_keys cfg' = top_keys cfg"
    and "k \<noteq> ''handlers'' \<Longrightarrow> k \<noteq> ''loggers'' \<Longrightarrow> getitem cfg' k = getitem cfg k"
proof -
  have "top_keys cfg' = top_keys cfg \<and>
      (k \<noteq> ''handlers'' \<longrightarrow> k \<noteq> ''loggers'' \<longrightarrow> getitem cfg' k = getitem cfg k)"
  proof (cases "log_group_arn env ''dag_processing''")
    case None
    with assms show ?thesis
      by (simp add: configure_dag_processing_logging_def get_vars_split)
  next
    case (Some a)
    with assms obtain c1 c2 c3 where
      c1: "setitem_in cfg ''handlers'' ''processor_manager''
             (processor_manager_handler ext a (logging_enabled env ''dag_processing'')) = Inr c1"
      and c2: "setitem_in c1 ''loggers'' ''airflow.processor_manager''
             (new_logger ''processor_manager'' (log_level env ''dag_processing'')) = Inr c2"
      and c3: "setitem_in c2 ''handlers'' ''processor''
             (processor_handler ext a (logging_enabled env ''dag_processing'')) = Inr c3"
      and c4: "setitem_in c3 ''loggers'' ''airflow.processor''
             (new_logger ''processor'' (log_level env ''dag_processing'')) = Inr cfg'"
      by (auto simp add: configure_dag_processing_logging_def get_vars_split bind_Inr_iff)
    show ?thesis
      by (simp add: setitem_in_kept [OF c1] setitem_in_kept [OF c2]
          setitem_in_kept [OF c3] setitem_in_kept [OF c4])
  qed
  then show "top_keys cfg' = top_keys cfg"
    and "k \<noteq> ''handlers'' \<Longrightarrow> k \<noteq> ''loggers'' \<Longrightarrow> getitem cfg' k = getitem cfg k"
    by simp_all
qed

lemma configure_subprocesses_logging_kept:
  assumes "configure_subprocesses_logging ext name arn lvl en cfg = Inr cfg'"
  shows "top_keys cfg' = top_keys cfg"
    and "k \<noteq> ''handlers'' \<Longrightarrow> k \<noteq> ''loggers'' \<Longrightarrow> getitem cfg' k = getitem cfg k"
proof -
  have "top_keys cfg' = top_keys cfg \<and>
      (k \<noteq> ''handlers'' \<longrightarrow> k \<noteq> ''loggers'' \<longrightarrow> getitem cfg' k = getitem cfg k)"
  proof (cases arn)
    case None
    with assms show ?thesis
      by (simp add: configure_subprocesses_logging_def)
  next
    case (Some a)
    with assms obtain c1 where
      c1: "setitem_in cfg ''handlers'' (''mwaa_'' @ name) (subprocess_handler ext name a en) = Inr c1"
      and c2: "setitem_in c1 ''loggers'' (''mwaa.'' @ name) (new_logger (''mwaa_'' @ name) lvl) = Inr cfg'"
      by (auto simp add: configure_subprocesses_logging_def Let_def bind_Inr_iff)
    show ?thesis
      by (simp add: setitem_in_kept [OF c1] setitem_in_kept [OF c2])
  qed
  then show "top_keys cfg' = top_keys cfg"
    and "k \<noteq> ''handlers'' \<Longrightarrow> k \<noteq> ''loggers'' \<Longrightarrow> getitem cfg' k = getitem cfg k"
    by simp_all
qed

lemma configure_components_kept:
  "configure_components ext env cs cfg = Inr cfg' \<Longrightarrow>
     top_keys cfg' = top_keys cfg \<and>
     (k \<noteq> ''handlers'' \<longrightarrow> k \<noteq> ''loggers'' \<longrightarrow> getitem cfg' k = getitem cfg k)"
proof (induction cs arbitrary: cfg)
  case Nil
  then show ?case by simp
next
  case (Cons c cs)
  from Cons.prems obtain c1 c2 where
    c1: "configure_subprocesses_logging ext c
           (log_group_arn env c) (log_level env c) (logging_enabled env c) cfg = Inr c1"
    and c2: "configure_subprocesses_logging ext (c @ ''_requirements'')
           (log_group_arn env c) (log_level env c) (logging_enabled env c) c1 = Inr c2"
    and rest: "configure_components ext env cs c2 = Inr cfg'"
    by (auto simp add: get_vars_split bind_Inr_iff)
  from Cons.IH [OF rest] show ?case
    by (simp add: configure_subprocesses_logging_kept [OF c1]
        configure_subprocesses_logging_kept [OF c2])
qed

lemma module_load_kept:
  assumes "module_load ext env = Inr cfg'"
  shows "top_keys cfg' = top_keys (DEFAULT_LOGGING_CONFIG ext)"
    and "k \<noteq> ''handlers'' \<Longrightarrow> k \<noteq> ''loggers'' \<Longrightarrow>
           getitem cfg' k = getitem (DEFAULT_LOGGING_CONFIG ext) k"
proof -
  from module_load_configure [OF assms] obtain c1 c2 where
    c1: "configure_task_logging ext env (DEFAULT_LOGGING_CONFIG ext) = Inr c1"
    and c2: "configure_dag_processing_logging ext env c1 = Inr c2"
    and c3: "configure_components ext env [''worker'', ''scheduler'', ''webserver''] c2 = Inr cfg'"
    by (auto simp add: configure_def bind_Inr_iff)
  from configure_components_kept [OF c3, of k]
  show "top_keys cfg' = top_keys (DEFAULT_LOGGING_CONFIG ext)"
    and "k \<noteq> ''handlers'' \<Longrightarrow> k \<noteq> ''loggers'' \<Longrightarrow>
           getitem cfg' k = getitem (DEFAULT_LOGGING_CONFIG ext) k"
    by (simp_all add: configure_task_logging_kept [OF c1] configure_dag_processing_logging_kept [OF c2])
qed

lemma handlers_after_other:
  assumes "h \<notin> fst ` set (concat (map registrations sources))"
  shows "handlers_after ext env m h = m h"
proof -
  from assms have "h \<noteq> ''task''" "h \<noteq> ''processor_manager''" "h \<noteq> ''processor''"
    "h \<noteq> ''mwaa_worker''" "h \<noteq> ''mwaa_worker_requirements''"
    "h \<noteq> ''mwaa_scheduler''" "h \<noteq> ''mwaa_scheduler_requirements''"
    "h \<noteq> ''mwaa_webserver''" "h \<noteq> ''mwaa_webserver_requirements''"
    by (simp_all add: sources_def registrations_def)
  then show ?thesis
    by (simp add: after_defs)
qed

lemma loggers_after_other:
  assumes "l \<notin> snd ` set (concat (map registrations sources))"
  shows "loggers_after env m l = m l"
proof -
  from assms have "l \<noteq> ''airflow.task''" "l \<noteq> ''airflow.processor_manager''"
    "l \<noteq> ''airflow.processor''"
    "l \<noteq> ''mwaa.worker''" "l \<noteq> ''mwaa.worker_requirements''"
    "l \<noteq> ''mwaa.scheduler''" "l \<noteq> ''mwaa.scheduler_requirements''"
    "l \<noteq> ''mwaa.webserver''" "l \<noteq> ''mwaa.webserver_requirements''"
    by (simp_all add: sources_def registrations_def)
  then show ?thesis
    by (simp add: after_defs task_loggers_apply)
qed

subsection \<open>A second run, and two environments\<close>

lemma setitem_in_same:
  assumes "subdict cfg outer key = Some v"
  shows "setitem_in cfg outer key v = Inr cfg"
proof -
  from assms obtain c d where cfg: "cfg = PDict c" and d: "map_of c outer = Some (PDict d)"
    and v: "map_of d key = Some v"
    by (cases cfg) (auto simp add: subdict_PDict subdict_def getitem_def
        split: option.splits pyval.splits)
  from v have "AList.update key v d = d" by (rule update_triv)
  moreover from d have "AList.update outer (PDict d) c = c" by (rule update_triv)
  ultimately show ?thesis
    by (simp add: setitem_in_def bind_def getitem_def setitem_def put_def cfg d)
qed

lemma update_in_same:
  assumes "subdict cfg outer key = Some (PDict e)" and "map_of e k = Some v"
  shows "update_in cfg outer key [(k, v)] = Inr cfg"
proof -
  from assms(1) obtain c d where cfg: "cfg = PDict c" and d: "map_of c outer = Some (PDict d)"
    and e: "map_of d key = Some (PDict e)"
    by (cases cfg) (auto simp add: subdict_PDict subdict_def getitem_def
        split: option.splits pyval.splits)
  from assms(2) have "AList.update k v e = e" by (rule update_triv)
  moreover from e have "AList.update key (PDict e) d = d" by (rule update_triv)
  moreover from d have "AList.update outer (PDict d) c = c" by (rule update_triv)
  ultimately show ?thesis
    by (simp add: update_in_def bind_def getitem_def dict_update_def put_def cfg d e)
qed

lemma configure_subprocesses_logging_same:
  assumes "\<And>a. arn = Some a \<Longrightarrow>
      handlers_of cfg (''mwaa_'' @ name) = Some (subprocess_handler ext name a en) \<and>
      loggers_of cfg (''mwaa.'' @ name) = Some (new_logger (''mwaa_'' @ name) lvl)"
  shows "configure_subprocesses_logging ext name arn lvl en cfg = Inr cfg"
proof (cases arn)
  case None
  then show ?thesis by (simp add: configure_subprocesses_logging_def)
next
  case (Some a)
  from assms [OF Some] have
    "setitem_in cfg ''handlers'' (''mwaa_'' @ name) (subprocess_handler ext name a en) = Inr cfg"
    "setitem_in cfg ''loggers'' (''mwaa.'' @ name) (new_logger (''mwaa_'' @ name) lvl) = Inr cfg"
    by (simp_all add: handlers_of_def loggers_of_def setitem_in_same)
  with Some show ?thesis
    by (simp add: configure_subprocesses_logging_def Let_def bind_def)
qed

lemma configure_idempotent:
  assumes "configure ext env cfg = Inr cfg'"
  shows "configure ext env cfg' = Inr cfg'"
proof -
  note eff = configure_effect [OF assms]
  have task: "configure_task_logging ext env cfg' = Inr cfg'"
  proof (cases "log_group_arn env ''task''")
    case None
    then show ?thesis
      by (simp add: configure_task_logging_def get_vars_split)
  next
    case (Some a)
    from assms obtain c1 where "configure_task_logging ext env cfg = Inr c1"
      by (auto simp add: configure_def bind_Inr_iff)
    from configure_task_logging_logger [OF this Some] obtain e where
      e: "loggers_of cfg ''airflow.task'' = Some (PDict e)" by blast
    have h: "handlers_of cfg' ''task'' = Some (task_handler ext env a (logging_enabled env ''task''))"
      by (simp add: eff handlers_after_task Some)
    have l: "loggers_of cfg' ''airflow.task'' =
        Some (PDict (AList.update ''level'' (PStr (log_level env ''task'')) e))"
      by (simp add: eff loggers_after_task task_loggers_apply Some e)
    have "setitem_in cfg' ''handlers'' ''task'' (task_handler ext env a (logging_enabled env ''task''))
        = Inr cfg'"
      using h by (simp add: handlers_of_def setitem_in_same)
    moreover have "map_of (AList.update ''level'' (PStr (log_level env ''task'')) e) ''level'' =
        Some (PStr (log_level env ''task''))"
      by (simp only: update_conv' fun_upd_same)
    with l have "update_in cfg' ''loggers'' ''airflow.task'' [(''level'', PStr (log_level env ''task''))]
        = Inr cfg'"
      unfolding loggers_of_def by (rule update_in_same)
    ultimately show ?thesis
      using Some by (simp add: configure_task_logging_def get_vars_split bind_def)
  qed
  have dag: "configure_dag_processing_logging ext env cfg' = Inr cfg'"
  proof (cases "log_group_arn env ''dag_processing''")
    case None
    then show ?thesis
      by (simp add: configure_dag_processing_logging_def get_vars_split)
  next
    case (Some a)
    have "setitem_in cfg' ''handlers'' ''processor_manager''
        (processor_manager_handler ext a (logging_enabled env ''dag_processing'')) = Inr cfg'"
      "setitem_in cfg' ''loggers'' ''airflow.processor_manager''
        (new_logger ''processor_manager'' (log_level env ''dag_processing'')) = Inr cfg'"
      "setitem_in cfg' ''handlers'' ''processor''
        (processor_handler ext a (logging_enabled env ''dag_processing'')) = Inr cfg'"
      "setitem_in cfg' ''loggers'' ''airflow.processor''
        (new_logger ''processor'' (log_level env ''dag_processing'')) = Inr cfg'"
      using eff
      by (simp_all add: setitem_in_same handlers_of_def [symmetric] loggers_of_def [symmetric]
          handlers_after_dag loggers_after_dag Some)
    with Some show ?thesis
      by (simp add: configure_dag_processing_logging_def get_vars_split bind_def)
  qed
  have comp: "configure_subprocesses_logging ext c
        (log_group_arn env c) (log_level env c) (logging_enabled env c) cfg' = Inr cfg' \<and>
      configure_subprocesses_logging ext (c @ ''_requirements'')
        (log_group_arn env c) (log_level env c) (logging_enabled env c) cfg' = Inr cfg'"
    if c: "c \<in> set [''worker'', ''scheduler'', ''webserver'']" for c
  proof
    show "configure_subprocesses_logging ext c
        (log_group_arn env c) (log_level env c) (logging_enabled env c) cfg' = Inr cfg'"
    proof (rule configure_subprocesses_logging_same)
      fix a assume a: "log_group_arn env c = Some a"
      show "handlers_of cfg' (''mwaa_'' @ c) = Some (subprocess_handler ext c a (logging_enabled env c)) \<and>
          loggers_of cfg' (''mwaa.'' @ c) = Some (new_logger (''mwaa_'' @ c) (log_level env c))"
        unfolding eff
        by (simp only: handlers_after_component(1) [OF c] loggers_after_component(1) [OF c]
            a option.case simp_thms)
    qed
    show "configure_subprocesses_logging ext (c @ ''_requirements'')
        (log_group_arn env c) (log_level env c) (logging_enabled env c) cfg' = Inr cfg'"
    proof (rule configure_subprocesses_logging_same)
      fix a assume a: "log_group_arn env c = Some a"
      show "handlers_of cfg' (''mwaa_'' @ c @ ''_requirements'') =
            Some (subprocess_handler ext (c @ ''_requirements'') a (logging_enabled env c)) \<and>
          loggers_of cfg' (''mwaa.'' @ c @ ''_requirements'') =
            Some (new_logger (''mwaa_'' @ c @ ''_requirements'') (log_level env c))"
        unfolding eff
        by (simp only: handlers_after_component(2) [OF c] loggers_after_component(2) [OF c]
            a option.case simp_thms)
    qed
  qed
  have "configure_components ext env [''worker'', ''scheduler'', ''webserver''] cfg' = Inr cfg'"
    using comp [of "''worker''"] comp [of "''scheduler''"] comp [of "''webserver''"]
    by (simp add: get_vars_split bind_def)
  with task dag show ?thesis
    by (simp add: configure_def bind_def)
qed

lemma configure_components_cong:
  "(\<And>c. c \<in> set cs \<Longrightarrow>
      get_mwaa_logging_env_vars env1 c = get_mwaa_logging_env_vars env2 c) \<Longrightarrow>
   configure_components ext env1 cs = configure_components ext env2 cs"
proof (induction cs)
  case Nil
  show ?case by (rule ext) simp
next
  case (Cons c cs)
  have "get_mwaa_logging_env_vars env1 c = get_mwaa_logging_env_vars env2 c"
    by (rule Cons.prems) simp
  moreover have "configure_components ext env1 cs = configure_components ext env2 cs"
    by (rule Cons.IH) (simp add: Cons.prems)
  ultimately show ?case
    by (intro ext) simp
qed

lemma configure_cong:
  assumes vars: "\<And>source. source \<in> set sources \<Longrightarrow>
      get_mwaa_logging_env_vars env1 source = get_mwaa_logging_env_vars env2 source"
    and home: "expanduser ext env1 (BASE_LOG_FOLDER ext) = expanduser ext env2 (BASE_LOG_FOLDER ext)"
  shows "configure ext env1 cfg = configure ext env2 cfg"
proof -
  have v: "get_mwaa_logging_env_vars env1 ''task'' = get_mwaa_logging_env_vars env2 ''task''"
    "get_mwaa_logging_env_vars env1 ''dag_processing'' = get_mwaa_logging_env_vars env2 ''dag_processing''"
    "get_mwaa_logging_env_vars env1 ''worker'' = get_mwaa_logging_env_vars env2 ''worker''"
    "get_mwaa_logging_env_vars env1 ''scheduler'' = get_mwaa_logging_env_vars env2 ''scheduler''"
    "get_mwaa_logging_env_vars env1 ''webserver'' = get_mwaa_logging_env_vars env2 ''webserver''"
    by (simp_all add: vars sources_def)
  have t: "task_handler ext env1 a en = task_handler ext env2 a en" for a en
    by (simp add: task_handler_def home)
  have "configure_task_logging ext env1 = configure_task_logging ext env2"
    by (rule ext) (simp add: configure_task_logging_def v t cong: option.case_cong prod.case_cong)
  moreover have "configure_dag_processing_logging ext env1 = configure_dag_processing_logging ext env2"
    by (rule ext) (simp add: configure_dag_processing_logging_def v)
  moreover have "configure_components ext env1 [''worker'', ''scheduler'', ''webserver''] =
      configure_components ext env2 [''worker'', ''scheduler'', ''webserver'']"
    by (rule configure_components_cong) (auto simp add: v)
  ultimately show ?thesis
    by (simp add: configure_def)
qed

subsection \<open>Runs on the sample inputs\<close>

text \<open>
  The worker's ARN alone adds the worker's two handlers and two loggers at the end of the
  dictionaries; without a \<open>loggers\<close> dictionary the task setup raises.
\<close>

lemma module_load_env_worker:
  "module_load airflow_defaults env_worker = Inr (PDict [
     (''version'', PInt 1),
     (''disable_existing_loggers'', PBool False),
     (''handlers'', PDict [
        (''console'', PDict [
           (''class'', PStr ''airflow.utils.log.logging_mixin.RedirectStdHandler''),
           (''formatter'', PStr ''airflow_coloured'')]),
        (''task'', PDict [
           (''class'', PStr ''airflow.utils.log.file_task_handler.FileTaskHandler''),
           (''formatter'', PStr ''airflow'')]),
        (''mwaa_worker'', PDict [
           (''class'', PStr ''mwaa.logging.cloudwatch_handlers.SubprocessLogHandler''),
           (''formatter'', PStr ''airflow''),
           (''filters'', PList [PStr ''mask_secrets'']),
           (''log_group_arn'', PStr ''arn:aws:logs:us-east-1:1:log-group:Worker''),
           (''stream_name_prefix'', PStr ''worker''),
           (''subprocess_name'', PStr ''worker''),
           (''enabled'', PBool False)]),
        (''mwaa_worker_requirements'', PDict [
           (''class'', PStr ''mwaa.logging.cloudwatch_handlers.SubprocessLogHandler''),
           (''formatter'', PStr ''airflow''),
           (''filters'', PList [PStr ''mask_secrets'']),
           (''log_group_arn'', PStr ''arn:aws:logs:us-east-1:1:log-group:Worker''),
           (''stream_name_prefix'', PStr ''worker_requirements''),
           (''subprocess_name'', PStr ''worker_requirements''),
           (''enabled'', PBool False)])]),
     (''loggers'', PDict [
        (''airflow.task'', PDict [
           (''handlers'', PList [PStr ''task'']),
           (''level'', PStr ''INFO''),
           (''propagate'', PBool True),
           (''filters'', PList [PStr ''mask_secrets''])]),
        (''mwaa.worker'', PDict [
           (''handlers'', PList [PStr ''mwaa_worker'']),
           (''level'', PStr ''INFO''),
           (''propagate'', PBool False)]),
        (''mwaa.worker_requirements'', PDict [
           (''handlers'', PList [PStr ''mwaa_worker_requirements'']),
           (''level'', PStr ''INFO''),
           (''propagate'', PBool False)])])])"
  by code_simp


lemma module_load_no_loggers:
  "module_load (airflow_defaults \<lparr>DEFAULT_LOGGING_CONFIG := PDict [(''handlers'', PDict [])]\<rparr>)
     env_task = Inl (KeyError ''loggers'')"
  by code_simp

subsection \<open>The order of the keys\<close>

lemma dict_keys_PDict:
  "dict_keys (PDict c) outer = (case map_of c outer of Some (PDict d) \<Rightarrow> map fst d | _ \<Rightarrow> [])"
  by (simp add: dict_keys_def getitem_def split: option.splits pyval.splits)

lemma setitem_in_keys:
  assumes "setitem_in cfg outer key v = Inr cfg'"
  shows "dict_keys cfg' name =
     (if name = outer then add_key (dict_keys cfg outer) key else dict_keys cfg name)"
proof -
  from assms obtain c d where cfg: "cfg = PDict c" and d: "map_of c outer = Some (PDict d)"
    and cfg': "cfg' = PDict (AList.update outer (PDict (AList.update key v d)) c)"
    by (auto simp add: setitem_in_def bind_Inr_iff getitem_Inr_iff setitem_Inr_iff put_def)
  show ?thesis
    by (simp add: cfg cfg' d dict_keys_PDict update_conv' update_keys add_key_def)
qed

lemma update_in_keys:
  assumes "update_in cfg outer key [(k, v)] = Inr cfg'"
  shows "dict_keys cfg' name =
     (if name = outer then add_key (dict_keys cfg outer) key else dict_keys cfg name)"
proof -
  from assms obtain c d e where cfg: "cfg = PDict c" and d: "map_of c outer = Some (PDict d)"
    and e: "map_of d key = Some (PDict e)"
    and cfg': "cfg' = PDict (AList.update outer (PDict (AList.update key (PDict (AList.update k v e)) d)) c)"
    by (auto simp add: update_in_def bind_Inr_iff getitem_Inr_iff dict_update_Inr_iff put_def)
  from e have "key \<in> set (map fst d)" by (rule map_of_Some_key)
  then show ?thesis
    by (simp add: cfg cfg' d dict_keys_PDict update_conv' update_keys add_key_def)
qed

lemma configure_task_logging_keys:
  assumes "configure_task_logging ext env cfg = Inr cfg'"
  shows "dict_keys cfg' ''handlers'' =
           foldl add_key (dict_keys cfg ''handlers'')
             (if log_group_arn env ''task'' = None then [] else [''task''])"
    and "dict_keys cfg' ''loggers'' =
           foldl add_key (dict_keys cfg ''loggers'')
             (if log_group_arn env ''task'' = None then [] else [''airflow.task''])"
proof -
  have "dict_keys cfg' ''handlers'' =
           foldl add_key (dict_keys cfg ''handlers'')
             (if log_group_arn env ''task'' = None then [] else [''task'']) \<and>
        dict_keys cfg' ''loggers'' =
           foldl add_key (dict_keys cfg ''loggers'')
             (if log_group_arn env ''task'' = None then [] else [''airflow.task''])"
  proof (cases "log_group_arn env ''task''")
    case None
    with assms show ?thesis
      by (simp add: configure_task_logging_def get_vars_split)
  next
    case (Some a)
    with assms obtain c1 where
      c1: "setitem_in cfg ''handlers'' ''task'' (task_handler ext env a (logging_enabled env ''task'')) = Inr c1"
      and c2: "update_in c1 ''loggers'' ''airflow.task'' [(''level'', PStr (log_level env ''task''))] = Inr cfg'"
      by (auto simp add: configure_task_logging_def get_vars_split bind_Inr_iff)
    show ?thesis
      by (simp add: Some setitem_in_keys [OF c1] update_in_keys [OF c2])
  qed
  then show "dict_keys cfg' ''handlers'' =
           foldl add_key (dict_keys cfg ''handlers'')
             (if log_group_arn env ''task'' = None then [] else [''task''])"
    and "dict_keys cfg' ''loggers'' =
           foldl add_key (dict_keys cfg ''loggers'')
             (if log_group_arn env ''task'' = None then [] else [''airflow.task''])"
    by simp_all
qed

lemma configure_dag_processing_logging_keys:
  assumes "configure_dag_processing_logging ext env cfg = Inr cfg'"
  shows "dict_keys cfg' ''handlers'' =
           foldl add_key (dict_keys cfg ''handlers'')
             (if log_group_arn env ''dag_processing'' = None then []
              else [''processor_manager'', ''processor''])"
    and "dict_keys cfg' ''loggers'' =
           foldl add_key (dict_keys cfg ''loggers'')
             (if log_group_arn env ''dag_processing'' = None then []
              else [''airflow.processor_manager'', ''airflow.processor''])"
proof -
  have "dict_keys cfg' ''handlers'' =
           foldl add_key (dict_keys cfg ''handlers'')
             (if log_group_arn env ''dag_processing'' = None then []
              else [''processor_manager'', ''processor'']) \<and>
        dict_keys cfg' ''loggers'' =
           foldl add_key (dict_keys cfg ''loggers'')
             (if log_group_arn env ''dag_processing'' = None then []
              else [''airflow.processor_manager'', ''airflow.processor''])"
  proof (cases "log_group_arn env ''dag_processing''")
    case None
    with assms show ?thesis
      by (simp add: configure_dag_processing_logging_def get_vars_split)
  next
    case (Some a)
    with assms obtain c1 c2 c3 where
      c1: "setitem_in cfg ''handlers'' ''processor_manager''
             (processor_manager_handler ext a (logging_enabled env ''dag_processing'')) = Inr c1"
      and c2: "setitem_in c1 ''loggers'' ''airflow.processor_manager''
             (new_logger ''processor_manager'' (log_level env ''dag_processing'')) = Inr c2"
      and c3: "setitem_in c2 ''handlers'' ''processor''
             (processor_handler ext a (logging_enabled env ''dag_processing'')) = Inr c3"
      and c4: "setitem_in c3 ''loggers'' ''airflow.processor''
             (new_logger ''processor'' (log_level env ''dag_processing'')) = Inr cfg'"
      by (auto simp add: configure_dag_processing_logging_def get_vars_split bind_Inr_iff)
    show ?thesis
      by (simp add: Some setitem_in_keys [OF c1] setitem_in_keys [OF c2]
          setitem_in_keys [OF c3] setitem_in_keys [OF c4])
  qed
  then show "dict_keys cfg' ''handlers'' =
           foldl add_key (dict_keys cfg ''handlers'')
             (if log_group_arn env ''dag_processing'' = None then []
              else [''processor_manager'', ''processor''])"
    and "dict_keys cfg' ''loggers'' =
           foldl add_key (dict_keys cfg ''loggers'')
             (if log_group_arn env ''dag_processing'' = None then []
              else [''airflow.processor_manager'', ''airflow.processor''])"
    by simp_all
qed

lemma configure_subprocesses_logging_keys:
  assumes "configure_subprocesses_logging ext name arn lvl en cfg = Inr cfg'"
  shows "dict_keys cfg' ''handlers'' =
           foldl add_key (dict_keys cfg ''handlers'') (if arn = None then [] else [''mwaa_'' @ name])"
    and "dict_keys cfg' ''loggers'' =
           foldl add_key (dict_keys cfg ''loggers'') (if arn = None then [] else [''mwaa.'' @ name])"
proof -
  have "dict_keys cfg' ''handlers'' =
           foldl add_key (dict_keys cfg ''handlers'') (if arn = None then [] else [''mwaa_'' @ name]) \<and>
        dict_keys cfg' ''loggers'' =
           foldl add_key (dict_keys cfg ''loggers'') (if arn = None then [] else [''mwaa.'' @ name])"
  proof (cases arn)
    case None
    with assms show ?thesis
      by (simp add: configure_subprocesses_logging_def)
  next
    case (Some a)
    with assms obtain c1 where
      c1: "setitem_in cfg ''handlers'' (''mwaa_'' @ name) (subprocess_handler ext name a en) = Inr c1"
      and c2: "setitem_in c1 ''loggers'' (''mwaa.'' @ name) (new_logger (''mwaa_'' @ name) lvl) = Inr cfg'"
      by (auto simp add: configure_subprocesses_logging_def Let_def bind_Inr_iff)
    show ?thesis
      by (simp add: Some setitem_in_keys [OF c1] setitem_in_keys [OF c2])
  qed
  then show "dict_keys cfg' ''handlers'' =
           foldl add_key (dict_keys cfg ''handlers'') (if arn = None then [] else [''mwaa_'' @ name])"
    and "dict_keys cfg' ''loggers'' =
           foldl add_key (dict_keys cfg ''loggers'') (if arn = None then [] else [''mwaa.'' @ name])"
    by simp_all
qed

lemma configure_components_keys:
  "configure_components ext env cs cfg = Inr cfg' \<Longrightarrow>
     dict_keys cfg' ''handlers'' =
       foldl add_key (dict_keys cfg ''handlers'')
         (concat (map (\<lambda>c. if log_group_arn env c = None then []
                            else [''mwaa_'' @ c, ''mwaa_'' @ c @ ''_requirements'']) cs)) \<and>
     dict_keys cfg' ''loggers'' =
       foldl add_key (dict_keys cfg ''loggers'')
         (concat (map (\<lambda>c. if log_group_arn env c = None then []
                            else [''mwaa.'' @ c, ''mwaa.'' @ c @ ''_requirements'']) cs))"
proof (induction cs arbitrary: cfg)
  case Nil
  then show ?case by simp
next
  case (Cons c cs)
  from Cons.prems obtain c1 c2 where
    c1: "configure_subprocesses_logging ext c
           (log_group_arn env c) (log_level env c) (logging_enabled env c) cfg = Inr c1"
    and c2: "configure_subprocesses_logging ext (c @ ''_requirements'')
           (log_group_arn env c) (log_level env c) (logging_enabled env c) c1 = Inr c2"
    and rest: "configure_components ext env cs c2 = Inr cfg'"
    by (auto simp add: get_vars_split bind_Inr_iff)
  note k1 = configure_subprocesses_logging_keys [OF c1]
  note k2 = configure_subprocesses_logging_keys [OF c2]
  from Cons.IH [OF rest] show ?case
    by (simp add: k1 k2)
qed

lemma written_names_unfold:
  "map fst (written_names env) =
     (if log_group_arn env ''task'' = None then [] else [''task'']) @
     (if log_group_arn env ''dag_processing'' = None then []
      else [''processor_manager'', ''processor'']) @
     concat (map (\<lambda>c. if log_group_arn env c = None then []
                        else [''mwaa_'' @ c, ''mwaa_'' @ c @ ''_requirements''])
       [''worker'', ''scheduler'', ''webserver''])"
  "map snd (written_names env) =
     (if log_group_arn env ''task'' = None then [] else [''airflow.task'']) @
     (if log_group_arn env ''dag_processing'' = None then []
      else [''airflow.processor_manager'', ''airflow.processor'']) @
     concat (map (\<lambda>c. if log_group_arn env c = None then []
                        else [''mwaa.'' @ c, ''mwaa.'' @ c @ ''_requirements''])
       [''worker'', ''scheduler'', ''webserver''])"
  by (simp_all add: written_names_def sources_def registrations_def)

lemma module_load_keys:
  assumes "module_load ext env = Inr cfg'"
  shows "dict_keys cfg' ''handlers'' =
           foldl add_key (dict_keys (DEFAULT_LOGGING_CONFIG ext) ''handlers'')
             (map fst (written_names env))"
    and "dict_keys cfg' ''loggers'' =
           foldl add_key (dict_keys (DEFAULT_LOGGING_CONFIG ext) ''loggers'')
             (map snd (written_names env))"
proof -
  from module_load_configure [OF assms] obtain c1 c2 where
    c1: "configure_task_logging ext env (DEFAULT_LOGGING_CONFIG ext) = Inr c1"
    and c2: "configure_dag_processing_logging ext env c1 = Inr c2"
    and c3: "configure_components ext env [''worker'', ''scheduler'', ''webserver''] c2 = Inr cfg'"
    by (auto simp add: configure_def bind_Inr_iff)
  note k = configure_components_keys [OF c3] configure_dag_processing_logging_keys [OF c2]
    configure_task_logging_keys [OF c1]
  show "dict_keys cfg' ''handlers'' =
           foldl add_key (dict_keys (DEFAULT_LOGGING_CONFIG ext) ''handlers'')
             (map fst (written_names env))"
    by (simp only: written_names_unfold foldl_append k)
  show "dict_keys cfg' ''loggers'' =
           foldl add_key (dict_keys (DEFAULT_LOGGING_CONFIG ext) ''loggers'')
             (map snd (written_names env))"
    by (simp only: written_names_unfold foldl_append k)
qed

lemma registered_written:
  assumes "module_load ext env = Inr cfg'"
    and "source \<in> set sources"
    and "(h, l) \<in> set (registrations source)"
    and "env (env_var source ''_LOG_GROUP_ARN'') = Some arn"
  shows "handler_param cfg' h ''log_group_arn'' = Some (PStr arn)"
    and "logger_param cfg' l ''level'' = Some (PStr (log_level env source))"
proof -
  from assms(4) have arn: "log_group_arn env source = Some arn"
    by (simp add: log_group_arn_eq)
  from registered_handler [OF assms(1-3) arn]
  show "handler_param cfg' h ''log_group_arn'' = Some (PStr arn)"
    by (auto simp add: handler_param_def handler_defs)
  show "logger_param cfg' l ''level'' = Some (PStr (log_level env source))"
  proof (cases "source = ''task''")
    case True
    with assms(3) have l: "l = ''airflow.task''"
      by (simp add: registrations_def)
    from task_logger_updated [OF assms(1)] arn True l show ?thesis
      by (auto simp add: logger_param_def update_conv')
  next
    case False
    from registered_new_logger [OF assms(1-3) arn False] show ?thesis
      by (simp add: logger_param_def new_logger_def)
  qed
qed

subsection \<open>Two environments with the same variables set\<close>

lemma registered_handler_same_keys:
  assumes "module_load ext env1 = Inr cfg1"
    and "module_load ext env2 = Inr cfg2"
    and "source \<in> set sources"
    and "(h, l) \<in> set (registrations source)"
    and "log_group_arn env1 source = Some a1"
    and "log_group_arn env2 source = Some a2"
  shows "\<exists>e1 e2. handlers_of cfg1 h = Some (PDict e1) \<and> handlers_of cfg2 h = Some (PDict e2) \<and>
           map fst e1 = map fst e2 \<and>
           (\<forall>k. k \<notin> {''log_group_arn'', ''enabled'', ''base_log_folder''} \<longrightarrow>
                map_of e1 k = map_of e2 k)"
proof -
  note eff1 = module_load_effect(1) [OF assms(1)]
  note eff2 = module_load_effect(1) [OF assms(2)]
  from assms(3,4) show ?thesis
  proof (cases rule: registered_cases)
    case task
    with assms(5,6) have
      "handlers_of cfg1 h = Some (task_handler ext env1 a1 (logging_enabled env1 source))"
      "handlers_of cfg2 h = Some (task_handler ext env2 a2 (logging_enabled env2 source))"
      by (simp_all add: eff1 eff2 handlers_after_task)
    then show ?thesis
      by (simp add: task_handler_def)
  next
    case processor_manager
    with assms(5,6) have
      "handlers_of cfg1 h = Some (processor_manager_handler ext a1 (logging_enabled env1 source))"
      "handlers_of cfg2 h = Some (processor_manager_handler ext a2 (logging_enabled env2 source))"
      by (simp_all add: eff1 eff2 handlers_after_dag)
    then show ?thesis
      by (simp add: processor_manager_handler_def)
  next
    case processor
    with assms(5,6) have
      "handlers_of cfg1 h = Some (processor_handler ext a1 (logging_enabled env1 source))"
      "handlers_of cfg2 h = Some (processor_handler ext a2 (logging_enabled env2 source))"
      by (simp_all add: eff1 eff2 handlers_after_dag)
    then show ?thesis
      by (simp add: processor_handler_def)
  next
    case component
    have "handlers_of cfg1 h = Some (subprocess_handler ext source a1 (logging_enabled env1 source))"
      unfolding eff1 component(2)
      by (simp only: handlers_after_component(1) [OF component(1)] assms(5) option.case)
    moreover
    have "handlers_of cfg2 h = Some (subprocess_handler ext source a2 (logging_enabled env2 source))"
      unfolding eff2 component(2)
      by (simp only: handlers_after_component(1) [OF component(1)] assms(6) option.case)
    ultimately show ?thesis
      by (simp add: subprocess_handler_def)
  next
    case requirements
    have "handlers_of cfg1 h =
        Some (subprocess_handler ext (source @ ''_requirements'') a1 (logging_enabled env1 source))"
      unfolding eff1 requirements(2)
      by (simp only: handlers_after_component(2) [OF requirements(1)] assms(5) option.case)
    moreover
    have "handlers_of cfg2 h =
        Some (subprocess_handler ext (source @ ''_requirements'') a2 (logging_enabled env2 source))"
      unfolding eff2 requirements(2)
      by (simp only: handlers_after_component(2) [OF requirements(1)] assms(6) option.case)
    ultimately show ?thesis
      by (simp add: subprocess_handler_def)
  qed
qed

lemma registered_logger_same_keys:
  assumes "module_load ext env1 = Inr cfg1"
    and "module_load ext env2 = Inr cfg2"
    and "source \<in> set sources"
    and "(h, l) \<in> set (registrations source)"
    and "log_group_arn env1 source = Some a1"
    and "log_group_arn env2 source = Some a2"
  shows "\<exists>e1 e2. loggers_of cfg1 l = Some (PDict e1) \<and> loggers_of cfg2 l = Some (PDict e2) \<and>
           map fst e1 = map fst e2 \<and>
           (\<forall>k. k \<noteq> ''level'' \<longrightarrow> map_of e1 k = map_of e2 k)"
proof (cases "source = ''task''")
  case True
  with assms(4) have l: "l = ''airflow.task''"
    by (simp add: registrations_def)
  from task_logger_updated [OF assms(1)] assms(5) True obtain e where
    e: "loggers_of (DEFAULT_LOGGING_CONFIG ext) ''airflow.task'' = Some (PDict e)"
    and e1: "loggers_of cfg1 ''airflow.task'' =
      Some (PDict (AList.update ''level'' (PStr (log_level env1 ''task'')) e))"
    by auto
  from task_logger_updated [OF assms(2)] assms(6) True e have
    e2: "loggers_of cfg2 ''airflow.task'' =
      Some (PDict (AList.update ''level'' (PStr (log_level env2 ''task'')) e))"
    by auto
  show ?thesis
    by (simp add: l e1 e2 update_keys update_conv')
next
  case False
  from registered_new_logger [OF assms(1,3,4,5) False]
    registered_new_logger [OF assms(2,3,4,6) False]
  show ?thesis
    by (simp add: new_logger_def)
qed

lemma written_names_cong:
  assumes "\<forall>source \<in> set sources.
      (log_group_arn env1 source = None) = (log_group_arn env2 source = None)"
  shows "written_names env1 = written_names env2"
  unfolding written_names_def
  by (rule arg_cong [where f = concat], rule map_cong) (simp_all add: assms)

section \<open>The claims\<close>

text \<open>
  C1, as amended. The variables that exist are those of the five sources task,
  dag_processing, worker, scheduler and webserver; a \<open>_requirements\<close> variant has no
  variable of its own and follows the variable of its component. For each of the five
  sources and each pair of a handler name and a logger name the source stands for: when
  \<open>MWAA__LOGGING__AIRFLOW_<SOURCE>_LOG_GROUP_ARN\<close> is not set, the handler entry and
  the logger entry of the loaded configuration are those of the default configuration;
  when it is set, the handler entry holds the ARN and the logger entry holds the level of
  the source. For the task source the logger entry is the existing \<open>airflow.task\<close>
  entry with its level set, not a new entry.
\<close>

theorem entries_follow_log_group_arn:
  assumes "module_load ext env = Inr cfg'"
    and "source \<in> set sources"
    and "(h, l) \<in> set (registrations source)"
  shows "case env (env_var source ''_LOG_GROUP_ARN'') of
           None \<Rightarrow>
             handlers_of cfg' h = handlers_of (DEFAULT_LOGGING_CONFIG ext) h \<and>
             loggers_of cfg' l = loggers_of (DEFAULT_LOGGING_CONFIG ext) l
         | Some arn \<Rightarrow>
             (\<exists>e. handlers_of cfg' h = Some (PDict e) \<and>
                  map_of e ''log_group_arn'' = Some (PStr arn)) \<and>
             (\<exists>e. loggers_of cfg' l = Some (PDict e) \<and>
                  map_of e ''level'' =
                    Some (PStr (case env (env_var source ''_LOG_LEVEL'') of
                                  None \<Rightarrow> ''INFO'' | Some v \<Rightarrow> v)))"
proof (cases "env (env_var source ''_LOG_GROUP_ARN'')")
  case None
  then have "log_group_arn env source = None"
    by (simp add: log_group_arn_eq)
  from registered_unset [OF assms this] None show ?thesis
    by simp
next
  case (Some arn)
  then have arn: "log_group_arn env source = Some arn"
    by (simp add: log_group_arn_eq)
  from registered_handler [OF assms arn]
  have hd: "\<exists>e. handlers_of cfg' h = Some (PDict e) \<and> map_of e ''log_group_arn'' = Some (PStr arn)"
    by (auto simp add: handler_defs)
  have lg: "\<exists>e. loggers_of cfg' l = Some (PDict e) \<and>
      map_of e ''level'' = Some (PStr (log_level env source))"
  proof (cases "source = ''task''")
    case True
    with assms(3) have l: "l = ''airflow.task''"
      by (simp add: registrations_def)
    from task_logger_updated [OF assms(1)] arn True l show ?thesis
      by (auto simp add: update_conv')
  next
    case False
    from registered_new_logger [OF assms arn False] show ?thesis
      by (simp add: new_logger_def)
  qed
  from hd lg Some show ?thesis
    by (simp add: log_level_eq)
qed

theorem entries_follow_log_group_arn_witness:
  "module_load airflow_defaults env_worker = Inr (projr (module_load airflow_defaults env_worker)) \<and>
   ''worker'' \<in> set sources \<and>
   (''mwaa_worker_requirements'', ''mwaa.worker_requirements'') \<in> set (registrations ''worker'') \<and>
   (\<exists>e. handlers_of (projr (module_load airflow_defaults env_worker)) ''mwaa_worker_requirements''
          = Some (PDict e) \<and>
        map_of e ''log_group_arn'' = Some (PStr ''arn:aws:logs:us-east-1:1:log-group:Worker'')) \<and>
   (\<exists>e. loggers_of (projr (module_load airflow_defaults env_worker)) ''mwaa.worker_requirements''
          = Some (PDict e) \<and>
        map_of e ''level'' = Some (PStr ''INFO''))"
proof -
  have h1: "module_load airflow_defaults env_worker = Inr (projr (module_load airflow_defaults env_worker))"
    by (rule module_load_projr) (rule well_formed_airflow_defaults)
  have h2: "''worker'' \<in> set sources"
    by (simp add: sources_def)
  have h3: "(''mwaa_worker_requirements'', ''mwaa.worker_requirements'') \<in> set (registrations ''worker'')"
    by (simp add: registrations_def)
  have h4: "env_worker (env_var ''worker'' ''_LOG_GROUP_ARN'') = Some ''arn:aws:logs:us-east-1:1:log-group:Worker''"
    by (simp add: env_worker_def env_var_simps)
  have h5: "env_worker (env_var ''worker'' ''_LOG_LEVEL'') = None"
    by (simp add: env_worker_def env_var_simps)
  from entries_follow_log_group_arn [OF h1 h2 h3] h1 h2 h3 show ?thesis
    by (simp add: h4 h5)
qed

text \<open>
  C1 as stated fails for a \<open>_requirements\<close> variant: with only the worker's ARN set,
  the variable \<open>MWAA__LOGGING__AIRFLOW_WORKER_REQUIREMENTS_LOG_GROUP_ARN\<close> is absent,
  and yet the handler \<open>mwaa_worker_requirements\<close> and the logger
  \<open>mwaa.worker_requirements\<close>, which the default configuration does not have, are added.
\<close>

theorem requirements_variable_counterexample:
  "env_var ''worker_requirements'' ''_LOG_GROUP_ARN'' =
     ''MWAA__LOGGING__AIRFLOW_WORKER_REQUIREMENTS_LOG_GROUP_ARN'' \<and>
   env_worker ''MWAA__LOGGING__AIRFLOW_WORKER_REQUIREMENTS_LOG_GROUP_ARN'' = None \<and>
   handlers_of (DEFAULT_LOGGING_CONFIG airflow_defaults) ''mwaa_worker_requirements'' = None \<and>
   loggers_of (DEFAULT_LOGGING_CONFIG airflow_defaults) ''mwaa.worker_requirements'' = None \<and>
   \<not> isl (module_load airflow_defaults env_worker) \<and>
   handlers_of (projr (module_load airflow_defaults env_worker)) ''mwaa_worker_requirements'' =
     Some (subprocess_handler airflow_defaults ''worker_requirements''
             ''arn:aws:logs:us-east-1:1:log-group:Worker'' False) \<and>
   loggers_of (projr (module_load airflow_defaults env_worker)) ''mwaa.worker_requirements'' =
     Some (new_logger ''mwaa_worker_requirements'' ''INFO'')"
proof -
  have h1: "module_load airflow_defaults env_worker = Inr (projr (module_load airflow_defaults env_worker))"
    by (rule module_load_projr) (rule well_formed_airflow_defaults)
  then have ok: "\<not> isl (module_load airflow_defaults env_worker)"
    by (metis sum.disc(2))
  have w: "''worker'' \<in> set [''worker'', ''scheduler'', ''webserver'']"
    by simp
  have arn: "log_group_arn env_worker ''worker'' = Some ''arn:aws:logs:us-east-1:1:log-group:Worker''"
    by (simp add: log_group_arn_eq env_worker_def env_var_simps)
  have lvl: "log_level env_worker ''worker'' = ''INFO''"
    by (simp add: log_level_eq env_worker_def env_var_simps)
  have en: "logging_enabled env_worker ''worker'' = False"
    by (simp add: logging_enabled_eq env_worker_def env_var_simps)
  have d1: "handlers_of (DEFAULT_LOGGING_CONFIG airflow_defaults) ''mwaa_worker_requirements'' = None"
    by (simp add: handlers_of_def subdict_def getitem_def airflow_defaults_def)
  have d2: "loggers_of (DEFAULT_LOGGING_CONFIG airflow_defaults) ''mwaa.worker_requirements'' = None"
    by (simp add: loggers_of_def subdict_def getitem_def airflow_defaults_def)
  have v1: "env_var ''worker_requirements'' ''_LOG_GROUP_ARN'' =
     ''MWAA__LOGGING__AIRFLOW_WORKER_REQUIREMENTS_LOG_GROUP_ARN''"
    by (simp add: env_var_simps)
  have v2: "env_worker ''MWAA__LOGGING__AIRFLOW_WORKER_REQUIREMENTS_LOG_GROUP_ARN'' = None"
    by (simp add: env_worker_def)
  have r1: "handlers_of (projr (module_load airflow_defaults env_worker)) ''mwaa_worker_requirements'' =
     Some (subprocess_handler airflow_defaults ''worker_requirements''
             ''arn:aws:logs:us-east-1:1:log-group:Worker'' False)"
    using handlers_after_component(2) [OF w, of airflow_defaults env_worker]
    by (simp add: module_load_effect(1) [OF h1] arn en)
  have r2: "loggers_of (projr (module_load airflow_defaults env_worker)) ''mwaa.worker_requirements'' =
     Some (new_logger ''mwaa_worker_requirements'' ''INFO'')"
    using loggers_after_component(2) [OF w, of env_worker]
    by (simp add: module_load_effect(2) [OF h1] arn lvl)
  from v1 v2 d1 d2 ok r1 r2 show ?thesis
    by (simp only: simp_thms)
qed

text \<open>
  C2, as amended. The construction is dictionary construction driven by string lookups,
  with one guard for each source: the entries under the names of a source are written
  when its log group ARN is set and are the default's when it is not, and no entry under
  another name is written. For two environments in which the same ARN variables are set,
  the loaded configurations have the same handler names and the same logger names, in
  the same order, and only parameter values inside the entries depend on the
  environment: every handler entry and every logger entry has the same keys in both, the
  handler entries differ at most in the log group ARN, the enablement flag and the base
  log folder, the logger entries at most in the level, and everything else in the two
  configurations is equal.
\<close>

theorem names_depend_on_presence:
  assumes "module_load ext env1 = Inr cfg1"
    and "module_load ext env2 = Inr cfg2"
    and "\<forall>source \<in> set sources.
           (env1 (env_var source ''_LOG_GROUP_ARN'') = None) =
           (env2 (env_var source ''_LOG_GROUP_ARN'') = None)"
  shows "dom (handlers_of cfg1) = dom (handlers_of cfg2) \<and>
         dom (loggers_of cfg1) = dom (loggers_of cfg2) \<and>
         dict_keys cfg1 ''handlers'' = dict_keys cfg2 ''handlers'' \<and>
         dict_keys cfg1 ''loggers'' = dict_keys cfg2 ''loggers'' \<and>
         top_keys cfg1 = top_keys cfg2 \<and>
         (\<forall>k. k \<noteq> ''handlers'' \<and> k \<noteq> ''loggers'' \<longrightarrow> getitem cfg1 k = getitem cfg2 k) \<and>
         (\<forall>h. handlers_of cfg1 h = handlers_of cfg2 h \<or>
              (\<exists>e1 e2. handlers_of cfg1 h = Some (PDict e1) \<and>
                 handlers_of cfg2 h = Some (PDict e2) \<and>
                 map fst e1 = map fst e2 \<and>
                 (\<forall>k. k \<notin> {''log_group_arn'', ''enabled'', ''base_log_folder''} \<longrightarrow>
                      map_of e1 k = map_of e2 k))) \<and>
         (\<forall>l. loggers_of cfg1 l = loggers_of cfg2 l \<or>
              (\<exists>e1 e2. loggers_of cfg1 l = Some (PDict e1) \<and>
                 loggers_of cfg2 l = Some (PDict e2) \<and>
                 map fst e1 = map fst e2 \<and>
                 (\<forall>k. k \<noteq> ''level'' \<longrightarrow> map_of e1 k = map_of e2 k))) \<and>
         (\<forall>source h l. source \<in> set sources \<and> (h, l) \<in> set (registrations source) \<longrightarrow>
              (case env1 (env_var source ''_LOG_GROUP_ARN'') of
                 None \<Rightarrow>
                   handlers_of cfg1 h = handlers_of (DEFAULT_LOGGING_CONFIG ext) h \<and>
                   loggers_of cfg1 l = loggers_of (DEFAULT_LOGGING_CONFIG ext) l
               | Some arn \<Rightarrow>
                   handler_param cfg1 h ''log_group_arn'' = Some (PStr arn) \<and>
                   logger_param cfg1 l ''level'' = Some (PStr (log_level env1 source)))) \<and>
         (\<forall>h. h \<notin> fst ` set (concat (map registrations sources)) \<longrightarrow>
              handlers_of cfg1 h = handlers_of (DEFAULT_LOGGING_CONFIG ext) h) \<and>
         (\<forall>l. l \<notin> snd ` set (concat (map registrations sources)) \<longrightarrow>
              loggers_of cfg1 l = loggers_of (DEFAULT_LOGGING_CONFIG ext) l)"
  (is "?dom_h \<and> ?dom_l \<and> ?keys_h \<and> ?keys_l \<and> ?top \<and> ?rest \<and> ?entries_h \<and> ?entries_l \<and>
       ?guard \<and> ?other_h \<and> ?other_l")
proof -
  from assms(3) have same:
    "(log_group_arn env1 ''task'' = None) = (log_group_arn env2 ''task'' = None)"
    "(log_group_arn env1 ''dag_processing'' = None) = (log_group_arn env2 ''dag_processing'' = None)"
    "(log_group_arn env1 ''worker'' = None) = (log_group_arn env2 ''worker'' = None)"
    "(log_group_arn env1 ''scheduler'' = None) = (log_group_arn env2 ''scheduler'' = None)"
    "(log_group_arn env1 ''webserver'' = None) = (log_group_arn env2 ''webserver'' = None)"
    by (simp_all add: log_group_arn_eq sources_def)
  from assms(3) have same_all: "\<forall>source \<in> set sources.
      (log_group_arn env1 source = None) = (log_group_arn env2 source = None)"
    by (simp add: log_group_arn_eq)
  note eff1 = module_load_effect [OF assms(1)]
  note eff2 = module_load_effect [OF assms(2)]
  have "dom (handlers_after ext env1 (handlers_of (DEFAULT_LOGGING_CONFIG ext))) =
        dom (handlers_after ext env2 (handlers_of (DEFAULT_LOGGING_CONFIG ext)))"
    by (simp only: handlers_after_def task_handlers_def dag_handlers_def component_handlers_def
        fold_simps comp_apply id_apply dom_written same)
  then have 1: ?dom_h
    by (simp only: eff1 eff2)
  have "dom (loggers_after env1 (loggers_of (DEFAULT_LOGGING_CONFIG ext))) =
        dom (loggers_after env2 (loggers_of (DEFAULT_LOGGING_CONFIG ext)))"
    by (simp only: loggers_after_def dag_loggers_def component_loggers_def
        fold_simps comp_apply id_apply dom_written dom_task_loggers same)
  then have 2: ?dom_l
    by (simp only: eff1 eff2)
  have 3: ?keys_h and 4: ?keys_l
    by (simp_all only: module_load_keys [OF assms(1)] module_load_keys [OF assms(2)]
        written_names_cong [OF same_all])
  have 5: ?top
    by (simp only: module_load_kept(1) [OF assms(1)] module_load_kept(1) [OF assms(2)])
  have 6: ?rest
    by (simp add: module_load_kept(2) [OF assms(1)] module_load_kept(2) [OF assms(2)])
  have other_h: "handlers_of cfg h = handlers_of (DEFAULT_LOGGING_CONFIG ext) h"
    if "module_load ext env = Inr cfg" "h \<notin> fst ` set (concat (map registrations sources))"
    for env cfg h
    unfolding module_load_effect(1) [OF that(1)] by (rule handlers_after_other [OF that(2)])
  have other_l: "loggers_of cfg l = loggers_of (DEFAULT_LOGGING_CONFIG ext) l"
    if "module_load ext env = Inr cfg" "l \<notin> snd ` set (concat (map registrations sources))"
    for env cfg l
    unfolding module_load_effect(2) [OF that(1)] by (rule loggers_after_other [OF that(2)])
  have 7: ?entries_h
  proof
    fix h
    show "handlers_of cfg1 h = handlers_of cfg2 h \<or>
        (\<exists>e1 e2. handlers_of cfg1 h = Some (PDict e1) \<and> handlers_of cfg2 h = Some (PDict e2) \<and>
           map fst e1 = map fst e2 \<and>
           (\<forall>k. k \<notin> {''log_group_arn'', ''enabled'', ''base_log_folder''} \<longrightarrow>
                map_of e1 k = map_of e2 k))"
    proof (cases "h \<in> fst ` set (concat (map registrations sources))")
      case False
      then show ?thesis
        by (simp only: other_h [OF assms(1)] other_h [OF assms(2)] simp_thms)
    next
      case True
      then obtain source l where s: "source \<in> set sources"
        and r: "(h, l) \<in> set (registrations source)"
        by auto
      show ?thesis
      proof (cases "log_group_arn env1 source")
        case None
        with same_all s have "log_group_arn env2 source = None" by simp
        from registered_unset(1) [OF assms(1) s r None] registered_unset(1) [OF assms(2) s r this]
        show ?thesis by simp
      next
        case (Some a1)
        with same_all s obtain a2 where "log_group_arn env2 source = Some a2" by auto
        from registered_handler_same_keys [OF assms(1,2) s r Some this]
        show ?thesis by (rule disjI2)
      qed
    qed
  qed
  have 8: ?entries_l
  proof
    fix l
    show "loggers_of cfg1 l = loggers_of cfg2 l \<or>
        (\<exists>e1 e2. loggers_of cfg1 l = Some (PDict e1) \<and> loggers_of cfg2 l = Some (PDict e2) \<and>
           map fst e1 = map fst e2 \<and> (\<forall>k. k \<noteq> ''level'' \<longrightarrow> map_of e1 k = map_of e2 k))"
    proof (cases "l \<in> snd ` set (concat (map registrations sources))")
      case False
      then show ?thesis
        by (simp only: other_l [OF assms(1)] other_l [OF assms(2)] simp_thms)
    next
      case True
      then obtain source h where s: "source \<in> set sources"
        and r: "(h, l) \<in> set (registrations source)"
        by auto
      show ?thesis
      proof (cases "log_group_arn env1 source")
        case None
        with same_all s have "log_group_arn env2 source = None" by simp
        from registered_unset(2) [OF assms(1) s r None] registered_unset(2) [OF assms(2) s r this]
        show ?thesis by simp
      next
        case (Some a1)
        with same_all s obtain a2 where "log_group_arn env2 source = Some a2" by auto
        from registered_logger_same_keys [OF assms(1,2) s r Some this]
        show ?thesis by (rule disjI2)
      qed
    qed
  qed
  have 9: ?guard
  proof (intro allI impI)
    fix source h l
    assume "source \<in> set sources \<and> (h, l) \<in> set (registrations source)"
    then have s: "source \<in> set sources" and r: "(h, l) \<in> set (registrations source)"
      by simp_all
    show "case env1 (env_var source ''_LOG_GROUP_ARN'') of
            None \<Rightarrow>
              handlers_of cfg1 h = handlers_of (DEFAULT_LOGGING_CONFIG ext) h \<and>
              loggers_of cfg1 l = loggers_of (DEFAULT_LOGGING_CONFIG ext) l
          | Some arn \<Rightarrow>
              handler_param cfg1 h ''log_group_arn'' = Some (PStr arn) \<and>
              logger_param cfg1 l ''level'' = Some (PStr (log_level env1 source))"
    proof (cases "env1 (env_var source ''_LOG_GROUP_ARN'')")
      case None
      then have "log_group_arn env1 source = None"
        by (simp add: log_group_arn_eq)
      from registered_unset [OF assms(1) s r this] None show ?thesis
        by simp
    next
      case (Some arn)
      from registered_written [OF assms(1) s r Some] Some show ?thesis
        by simp
    qed
  qed
  have 10: ?other_h
    by (intro allI impI) (rule other_h [OF assms(1)])
  have 11: ?other_l
    by (intro allI impI) (rule other_l [OF assms(1)])
  from 1 2 3 4 5 6 7 8 9 10 11 show ?thesis
    by (intro conjI)
qed

theorem names_depend_on_presence_witness:
  "module_load airflow_defaults env_worker = Inr (projr (module_load airflow_defaults env_worker)) \<and>
   module_load airflow_defaults env_worker_debug =
     Inr (projr (module_load airflow_defaults env_worker_debug)) \<and>
   list_all (\<lambda>source.
      (env_worker (env_var source ''_LOG_GROUP_ARN'') = None) =
      (env_worker_debug (env_var source ''_LOG_GROUP_ARN'') = None)) sources \<and>
   dom (handlers_of (projr (module_load airflow_defaults env_worker))) =
     dom (handlers_of (projr (module_load airflow_defaults env_worker_debug))) \<and>
   dom (loggers_of (projr (module_load airflow_defaults env_worker))) =
     dom (loggers_of (projr (module_load airflow_defaults env_worker_debug))) \<and>
   dict_keys (projr (module_load airflow_defaults env_worker)) ''handlers'' =
     dict_keys (projr (module_load airflow_defaults env_worker_debug)) ''handlers'' \<and>
   dict_keys (projr (module_load airflow_defaults env_worker)) ''loggers'' =
     dict_keys (projr (module_load airflow_defaults env_worker_debug)) ''loggers'' \<and>
   top_keys (projr (module_load airflow_defaults env_worker)) =
     top_keys (projr (module_load airflow_defaults env_worker_debug)) \<and>
   handler_param (projr (module_load airflow_defaults env_worker)) ''mwaa_worker'' ''log_group_arn'' =
     Some (PStr ''arn:aws:logs:us-east-1:1:log-group:Worker'') \<and>
   handlers_of (projr (module_load airflow_defaults env_worker)) ''console'' =
     handlers_of (DEFAULT_LOGGING_CONFIG airflow_defaults) ''console''"
proof -
  define r1 where "r1 = projr (module_load airflow_defaults env_worker)"
  define r2 where "r2 = projr (module_load airflow_defaults env_worker_debug)"
  have h1: "module_load airflow_defaults env_worker = Inr r1"
    unfolding r1_def by (rule module_load_projr) (rule well_formed_airflow_defaults)
  have h2: "module_load airflow_defaults env_worker_debug = Inr r2"
    unfolding r2_def by (rule module_load_projr) (rule well_formed_airflow_defaults)
  have h3: "\<forall>source \<in> set sources.
      (env_worker (env_var source ''_LOG_GROUP_ARN'') = None) =
      (env_worker_debug (env_var source ''_LOG_GROUP_ARN'') = None)"
    by (simp add: sources_def env_worker_def env_worker_debug_def env_var_simps)
  from h3 have h3': "list_all (\<lambda>source.
      (env_worker (env_var source ''_LOG_GROUP_ARN'') = None) =
      (env_worker_debug (env_var source ''_LOG_GROUP_ARN'') = None)) sources"
    by (simp only: list_all_iff)
  have w: "''worker'' \<in> set sources \<and> (''mwaa_worker'', ''mwaa.worker'') \<in> set (registrations ''worker'')"
    by (simp add: sources_def registrations_def)
  have a: "env_worker (env_var ''worker'' ''_LOG_GROUP_ARN'') =
      Some ''arn:aws:logs:us-east-1:1:log-group:Worker''"
    by (simp add: env_worker_def env_var_simps)
  have c: "''console'' \<notin> fst ` set (concat (map registrations sources))"
    by (simp add: sources_def registrations_def)
  note all = names_depend_on_presence [OF h1 h2 h3]
  note c1 = all [THEN conjunct1]
  note t2 = all [THEN conjunct2]
  note c2 = t2 [THEN conjunct1]
  note t3 = t2 [THEN conjunct2]
  note c3 = t3 [THEN conjunct1]
  note t4 = t3 [THEN conjunct2]
  note c4 = t4 [THEN conjunct1]
  note t5 = t4 [THEN conjunct2]
  note c5 = t5 [THEN conjunct1]
  note t9 = t5 [THEN conjunct2, THEN conjunct2, THEN conjunct2, THEN conjunct2]
  note c9 = t9 [THEN conjunct1, THEN spec, THEN spec, THEN spec, THEN mp, OF w]
  note c10 = t9 [THEN conjunct2, THEN conjunct1, THEN spec, THEN mp, OF c]
  from c9 have c9': "handler_param r1 ''mwaa_worker'' ''log_group_arn'' =
      Some (PStr ''arn:aws:logs:us-east-1:1:log-group:Worker'')"
    by (simp add: a)
  from h1 h2 h3' c1 c2 c3 c4 c5 c9' c10 show ?thesis
    unfolding r1_def r2_def by (intro conjI)
qed

text \<open>
  C2 as stated fails: the construction branches on the presence of each ARN variable.
  With no variable set the loaded configuration has no handler \<open>mwaa_worker\<close> and no
  logger \<open>mwaa.worker\<close>; with the worker's ARN set it has both, so the sets of names
  differ between the two environments.
\<close>

theorem names_counterexample:
  "\<not> isl (module_load airflow_defaults env_none) \<and>
   \<not> isl (module_load airflow_defaults env_worker) \<and>
   handlers_of (projr (module_load airflow_defaults env_none)) ''mwaa_worker'' = None \<and>
   handlers_of (projr (module_load airflow_defaults env_worker)) ''mwaa_worker'' =
     Some (subprocess_handler airflow_defaults ''worker''
             ''arn:aws:logs:us-east-1:1:log-group:Worker'' False) \<and>
   loggers_of (projr (module_load airflow_defaults env_none)) ''mwaa.worker'' = None \<and>
   loggers_of (projr (module_load airflow_defaults env_worker)) ''mwaa.worker'' =
     Some (new_logger ''mwaa_worker'' ''INFO'') \<and>
   dom (handlers_of (projr (module_load airflow_defaults env_none))) \<noteq>
     dom (handlers_of (projr (module_load airflow_defaults env_worker)))"
proof -
  have h1: "module_load airflow_defaults env_none = Inr (projr (module_load airflow_defaults env_none))"
    by (rule module_load_projr) (rule well_formed_airflow_defaults)
  have h2: "module_load airflow_defaults env_worker =
      Inr (projr (module_load airflow_defaults env_worker))"
    by (rule module_load_projr) (rule well_formed_airflow_defaults)
  from h1 have ok1: "\<not> isl (module_load airflow_defaults env_none)"
    by (metis sum.disc(2))
  from h2 have ok2: "\<not> isl (module_load airflow_defaults env_worker)"
    by (metis sum.disc(2))
  have w: "''worker'' \<in> set [''worker'', ''scheduler'', ''webserver'']"
    by simp
  have none: "log_group_arn env_none ''worker'' = None"
    by (simp add: log_group_arn_eq env_none_def)
  have arn: "log_group_arn env_worker ''worker'' = Some ''arn:aws:logs:us-east-1:1:log-group:Worker''"
    by (simp add: log_group_arn_eq env_worker_def env_var_simps)
  have lvl: "log_level env_worker ''worker'' = ''INFO''"
    by (simp add: log_level_eq env_worker_def env_var_simps)
  have en: "logging_enabled env_worker ''worker'' = False"
    by (simp add: logging_enabled_eq env_worker_def env_var_simps)
  have d1: "handlers_of (DEFAULT_LOGGING_CONFIG airflow_defaults) ''mwaa_worker'' = None"
    by (simp add: handlers_of_def subdict_def getitem_def airflow_defaults_def)
  have d2: "loggers_of (DEFAULT_LOGGING_CONFIG airflow_defaults) ''mwaa.worker'' = None"
    by (simp add: loggers_of_def subdict_def getitem_def airflow_defaults_def)
  have r1: "handlers_of (projr (module_load airflow_defaults env_none)) ''mwaa_worker'' = None"
    using handlers_after_component(1) [OF w, of airflow_defaults env_none]
    by (simp add: module_load_effect(1) [OF h1] none d1)
  have r2: "handlers_of (projr (module_load airflow_defaults env_worker)) ''mwaa_worker'' =
     Some (subprocess_handler airflow_defaults ''worker''
             ''arn:aws:logs:us-east-1:1:log-group:Worker'' False)"
    using handlers_after_component(1) [OF w, of airflow_defaults env_worker]
    by (simp add: module_load_effect(1) [OF h2] arn en)
  have r3: "loggers_of (projr (module_load airflow_defaults env_none)) ''mwaa.worker'' = None"
    using loggers_after_component(1) [OF w, of env_none]
    by (simp add: module_load_effect(2) [OF h1] none d2)
  have r4: "loggers_of (projr (module_load airflow_defaults env_worker)) ''mwaa.worker'' =
     Some (new_logger ''mwaa_worker'' ''INFO'')"
    using loggers_after_component(1) [OF w, of env_worker]
    by (simp add: module_load_effect(2) [OF h2] arn lvl)
  have r5: "dom (handlers_of (projr (module_load airflow_defaults env_none))) \<noteq>
     dom (handlers_of (projr (module_load airflow_defaults env_worker)))"
  proof
    assume "dom (handlers_of (projr (module_load airflow_defaults env_none))) =
      dom (handlers_of (projr (module_load airflow_defaults env_worker)))"
    moreover from r2 have "''mwaa_worker'' \<in> dom (handlers_of (projr (module_load airflow_defaults env_worker)))"
      by blast
    ultimately have "''mwaa_worker'' \<in> dom (handlers_of (projr (module_load airflow_defaults env_none)))"
      by simp
    with r1 show False by blast
  qed
  from ok1 ok2 r1 r2 r3 r4 r5 show ?thesis
    by (simp only: simp_thms)
qed

text \<open>
  C3. Every handler entry the module writes (the entry under each handler name of a
  source whose log group ARN is set) contains the four parameters of the data model: the
  class reference, which is the module and the qualified name of the handler class of
  that name joined by a dot; the formatter name \<open>airflow\<close>; the log group ARN of the
  source as destination; and the enablement flag of the source.
\<close>

theorem handler_entry_parameters:
  assumes "module_load ext env = Inr cfg'"
    and "source \<in> set sources"
    and "(h, l) \<in> set (registrations source)"
    and "env (env_var source ''_LOG_GROUP_ARN'') = Some arn"
  shows "handler_param cfg' h ''class'' =
           Some (PStr (cls_module (handler_class ext h) @ ''.'' @ cls_qualname (handler_class ext h))) \<and>
         handler_param cfg' h ''formatter'' = Some (PStr ''airflow'') \<and>
         handler_param cfg' h ''log_group_arn'' = Some (PStr arn) \<and>
         handler_param cfg' h ''enabled'' = Some (PBool (logging_enabled env source))"
proof -
  note eff = module_load_effect(1) [OF assms(1)]
  from assms(4) have arn: "log_group_arn env source = Some arn"
    by (simp add: log_group_arn_eq)
  from assms(2,3) show ?thesis
  proof (cases rule: registered_cases)
    case task
    with arn have "handlers_of cfg' h = Some (task_handler ext env arn (logging_enabled env source))"
      by (simp add: eff handlers_after_task)
    then show ?thesis
      by (simp add: handler_param_def task_handler_def qualified_name_def handler_class_def task(2))
  next
    case processor_manager
    with arn have "handlers_of cfg' h =
        Some (processor_manager_handler ext arn (logging_enabled env source))"
      by (simp add: eff handlers_after_dag)
    then show ?thesis
      by (simp add: handler_param_def processor_manager_handler_def qualified_name_def
          handler_class_def processor_manager(2))
  next
    case processor
    with arn have "handlers_of cfg' h = Some (processor_handler ext arn (logging_enabled env source))"
      by (simp add: eff handlers_after_dag)
    then show ?thesis
      by (simp add: handler_param_def processor_handler_def qualified_name_def
          handler_class_def processor(2))
  next
    case component
    have "handlers_of cfg' h = Some (subprocess_handler ext source arn (logging_enabled env source))"
      unfolding eff component(2)
      by (simp only: handlers_after_component(1) [OF component(1)] arn option.case)
    then show ?thesis
      by (simp add: handler_param_def subprocess_handler_def qualified_name_def
          handler_class_def component(2))
  next
    case requirements
    have "handlers_of cfg' h =
        Some (subprocess_handler ext (source @ ''_requirements'') arn (logging_enabled env source))"
      unfolding eff requirements(2)
      by (simp only: handlers_after_component(2) [OF requirements(1)] arn option.case)
    then show ?thesis
      by (simp add: handler_param_def subprocess_handler_def qualified_name_def
          handler_class_def requirements(2))
  qed
qed

theorem handler_entry_parameters_witness:
  "module_load airflow_defaults env_all = Inr (projr (module_load airflow_defaults env_all)) \<and>
   ''dag_processing'' \<in> set sources \<and>
   (''processor'', ''airflow.processor'') \<in> set (registrations ''dag_processing'') \<and>
   env_all (env_var ''dag_processing'' ''_LOG_GROUP_ARN'') =
     Some ''arn:aws:logs:us-east-1:1:log-group:DAGProcessing'' \<and>
   handler_param (projr (module_load airflow_defaults env_all)) ''processor'' ''class'' =
     Some (PStr ''mwaa.logging.cloudwatch_handlers.DagProcessingLogHandler'') \<and>
   handler_param (projr (module_load airflow_defaults env_all)) ''processor'' ''formatter'' =
     Some (PStr ''airflow'') \<and>
   handler_param (projr (module_load airflow_defaults env_all)) ''processor'' ''log_group_arn'' =
     Some (PStr ''arn:aws:logs:us-east-1:1:log-group:DAGProcessing'') \<and>
   handler_param (projr (module_load airflow_defaults env_all)) ''processor'' ''enabled'' =
     Some (PBool True)"
proof -
  have h1: "module_load airflow_defaults env_all = Inr (projr (module_load airflow_defaults env_all))"
    by (rule module_load_projr) (rule well_formed_airflow_defaults)
  have h2: "''dag_processing'' \<in> set sources"
    by (simp add: sources_def)
  have h3: "(''processor'', ''airflow.processor'') \<in> set (registrations ''dag_processing'')"
    by (simp add: registrations_def)
  have h4: "env_all (env_var ''dag_processing'' ''_LOG_GROUP_ARN'') =
     Some ''arn:aws:logs:us-east-1:1:log-group:DAGProcessing''"
    by (simp add: env_all_def env_var_simps)
  have en: "logging_enabled env_all ''dag_processing'' = True"
    by (simp add: logging_enabled_eq env_all_def env_var_simps true_spellings_def)
  have cl: "cls_module (handler_class airflow_defaults ''processor'') @ ''.'' @
      cls_qualname (handler_class airflow_defaults ''processor'') =
      ''mwaa.logging.cloudwatch_handlers.DagProcessingLogHandler''"
    by (simp add: handler_class_def airflow_defaults_def)
  from handler_entry_parameters [OF h1 h2 h3 h4] h1 h2 h3 h4 show ?thesis
    unfolding en cl by (simp only: simp_thms)
qed

text \<open>
  C4. Every logger entry the module writes contains the list of attached handlers, the
  level and the propagation flag, the entry of the task logger included. A logger the
  module creates attaches the one handler of its setup call, has the level of its source
  and does not propagate. The task logger is the framework's \<open>airflow.task\<close> entry with
  the level of the task source written into it: the framework's entry has attached
  handlers and a propagation flag, and the update keeps both.
\<close>

theorem logger_entry_parameters:
  assumes "module_load ext env = Inr cfg'"
    and "source \<in> set sources"
    and "(h, l) \<in> set (registrations source)"
    and "env (env_var source ''_LOG_GROUP_ARN'') = Some arn"
    and "logger_param (DEFAULT_LOGGING_CONFIG ext) ''airflow.task'' ''handlers'' = Some (PList hs)"
    and "logger_param (DEFAULT_LOGGING_CONFIG ext) ''airflow.task'' ''propagate'' = Some (PBool p)"
  shows "logger_param cfg' l ''handlers'' =
           Some (PList (if source = ''task'' then hs else [PStr h])) \<and>
         logger_param cfg' l ''level'' = Some (PStr (log_level env source)) \<and>
         logger_param cfg' l ''propagate'' = Some (PBool (if source = ''task'' then p else False))"
proof (cases "source = ''task''")
  case True
  from assms(4) True have arn: "log_group_arn env ''task'' = Some arn"
    by (simp add: log_group_arn_eq)
  from assms(3) True have l: "l = ''airflow.task''"
    by (simp add: registrations_def)
  from task_logger_updated [OF assms(1) arn] obtain e where
    e: "loggers_of (DEFAULT_LOGGING_CONFIG ext) ''airflow.task'' = Some (PDict e)"
    and e': "loggers_of cfg' ''airflow.task'' =
      Some (PDict (AList.update ''level'' (PStr (log_level env ''task'')) e))"
    by blast
  from assms(5,6) e have "map_of e ''handlers'' = Some (PList hs)"
    "map_of e ''propagate'' = Some (PBool p)"
    by (simp_all add: logger_param_def)
  then show ?thesis
    by (simp add: logger_param_def l e' True update_conv')
next
  case False
  from assms(4) have arn: "log_group_arn env source = Some arn"
    by (simp add: log_group_arn_eq)
  from registered_new_logger [OF assms(1-3) arn False] False show ?thesis
    by (simp add: logger_param_def new_logger_def)
qed

theorem logger_entry_parameters_witness:
  "module_load airflow_defaults env_all = Inr (projr (module_load airflow_defaults env_all)) \<and>
   ''task'' \<in> set sources \<and>
   (''task'', ''airflow.task'') \<in> set (registrations ''task'') \<and>
   env_all (env_var ''task'' ''_LOG_GROUP_ARN'') = Some ''arn:aws:logs:us-east-1:1:log-group:Task'' \<and>
   logger_param (DEFAULT_LOGGING_CONFIG airflow_defaults) ''airflow.task'' ''handlers'' =
     Some (PList [PStr ''task'']) \<and>
   logger_param (DEFAULT_LOGGING_CONFIG airflow_defaults) ''airflow.task'' ''propagate'' =
     Some (PBool True) \<and>
   logger_param (projr (module_load airflow_defaults env_all)) ''airflow.task'' ''handlers'' =
     Some (PList [PStr ''task'']) \<and>
   logger_param (projr (module_load airflow_defaults env_all)) ''airflow.task'' ''level'' =
     Some (PStr ''DEBUG'') \<and>
   logger_param (projr (module_load airflow_defaults env_all)) ''airflow.task'' ''propagate'' =
     Some (PBool True)"
proof -
  have h1: "module_load airflow_defaults env_all = Inr (projr (module_load airflow_defaults env_all))"
    by (rule module_load_projr) (rule well_formed_airflow_defaults)
  have h2: "''task'' \<in> set sources"
    by (simp add: sources_def)
  have h3: "(''task'', ''airflow.task'') \<in> set (registrations ''task'')"
    by (simp add: registrations_def)
  have h4: "env_all (env_var ''task'' ''_LOG_GROUP_ARN'') = Some ''arn:aws:logs:us-east-1:1:log-group:Task''"
    by (simp add: env_all_def env_var_simps)
  have h5: "logger_param (DEFAULT_LOGGING_CONFIG airflow_defaults) ''airflow.task'' ''handlers'' =
     Some (PList [PStr ''task''])"
    by (simp add: logger_param_def loggers_of_def subdict_def getitem_def airflow_defaults_def)
  have h6: "logger_param (DEFAULT_LOGGING_CONFIG airflow_defaults) ''airflow.task'' ''propagate'' =
     Some (PBool True)"
    by (simp add: logger_param_def loggers_of_def subdict_def getitem_def airflow_defaults_def)
  have lvl: "log_level env_all ''task'' = ''DEBUG''"
    by (simp add: log_level_eq env_all_def env_var_simps)
  from logger_entry_parameters [OF h1 h2 h3 h4 h5 h6] h1 h2 h3 h4 h5 h6 show ?thesis
    unfolding lvl by simp
qed

text \<open>
  C5. For every source, the enablement flag in each handler entry of the source is true
  exactly when the variable \<open>MWAA__LOGGING__AIRFLOW_<SOURCE>_LOGS_ENABLED\<close> is set and
  is one of the spellings of \<open>true\<close> in upper and lower case; when the variable is not
  set the flag is false. The handler entries of a source are there when its log group
  ARN is set.
\<close>

theorem enabled_flag:
  assumes "module_load ext env = Inr cfg'"
    and "source \<in> set sources"
    and "(h, l) \<in> set (registrations source)"
    and "env (env_var source ''_LOG_GROUP_ARN'') = Some arn"
  shows "\<exists>e. handlers_of cfg' h = Some (PDict e) \<and>
           map_of e ''enabled'' =
             Some (PBool (case env (env_var source ''_LOGS_ENABLED'') of
                            None \<Rightarrow> False
                          | Some v \<Rightarrow> v \<in> set true_spellings))"
proof -
  note eff = module_load_effect(1) [OF assms(1)]
  from assms(4) have arn: "log_group_arn env source = Some arn"
    by (simp add: log_group_arn_eq)
  from assms(2,3) show ?thesis
  proof (cases rule: registered_cases)
    case task
    with arn show ?thesis
      by (simp add: eff handlers_after_task task_handler_def logging_enabled_eq)
  next
    case processor_manager
    with arn show ?thesis
      by (simp add: eff handlers_after_dag processor_manager_handler_def logging_enabled_eq)
  next
    case processor
    with arn show ?thesis
      by (simp add: eff handlers_after_dag processor_handler_def logging_enabled_eq)
  next
    case component
    have "handlers_of cfg' h = Some (subprocess_handler ext source arn (logging_enabled env source))"
      unfolding eff component(2)
      by (simp only: handlers_after_component(1) [OF component(1)] arn option.case)
    then show ?thesis
      by (simp add: subprocess_handler_def logging_enabled_eq)
  next
    case requirements
    have "handlers_of cfg' h =
        Some (subprocess_handler ext (source @ ''_requirements'') arn (logging_enabled env source))"
      unfolding eff requirements(2)
      by (simp only: handlers_after_component(2) [OF requirements(1)] arn option.case)
    then show ?thesis
      by (simp add: subprocess_handler_def logging_enabled_eq)
  qed
qed

theorem enabled_flag_witness:
  "module_load airflow_defaults env_all = Inr (projr (module_load airflow_defaults env_all)) \<and>
   ''worker'' \<in> set sources \<and>
   (''mwaa_worker_requirements'', ''mwaa.worker_requirements'') \<in> set (registrations ''worker'') \<and>
   env_all (env_var ''worker'' ''_LOG_GROUP_ARN'') = Some ''arn:aws:logs:us-east-1:1:log-group:Worker'' \<and>
   (\<exists>e. handlers_of (projr (module_load airflow_defaults env_all)) ''mwaa_worker_requirements''
           = Some (PDict e) \<and>
        map_of e ''enabled'' = Some (PBool True))"
proof -
  have h1: "module_load airflow_defaults env_all = Inr (projr (module_load airflow_defaults env_all))"
    by (rule module_load_projr) (rule well_formed_airflow_defaults)
  have h2: "''worker'' \<in> set sources"
    by (simp add: sources_def)
  have h3: "(''mwaa_worker_requirements'', ''mwaa.worker_requirements'') \<in> set (registrations ''worker'')"
    by (simp add: registrations_def)
  have h4: "env_all (env_var ''worker'' ''_LOG_GROUP_ARN'') = Some ''arn:aws:logs:us-east-1:1:log-group:Worker''"
    by (simp add: env_all_def env_var_simps)
  have h5: "env_all (env_var ''worker'' ''_LOGS_ENABLED'') = Some ''True''"
    by (simp add: env_all_def env_var_simps)
  have h6: "''True'' \<in> set true_spellings"
    by (simp add: true_spellings_def)
  from enabled_flag [OF h1 h2 h3 h4] h1 h2 h3 h4 show ?thesis
    by (simp add: h5 h6)
qed

text \<open>
  C6. Loading the module runs one fixed sequence of setup calls on the copy of the
  default configuration, each call working on the configuration the call before it
  left: task logging, then DAG-processing logging, then for worker, scheduler and
  webserver, in this order, the component and after it its \<open>_requirements\<close> variant,
  with the values read once for the component. The calls change the configuration, and
  their order shows in it: the keys of the handlers and of the loggers after loading are
  the default's keys with the names the calls write added one after the other in the
  order of the calls, and under every name of a source whose ARN is set the handler holds
  that ARN and the logger the level of the source. The configuration is changed in place
  and not built anew: the top level has the keys of the default configuration in their
  order, every top-level value but the handlers and the loggers is the default's, and so
  is every handler and logger entry under a name the setup calls do not write.
\<close>

theorem fixed_sequence_of_setup_calls:
  "module_load ext env =
     bind (LOGGING_CONFIG_init ext) (\<lambda>cfg.
     bind (configure_task_logging ext env cfg) (\<lambda>cfg.
     bind (configure_dag_processing_logging ext env cfg) (\<lambda>cfg.
     bind (configure_subprocesses_logging ext ''worker''
             (log_group_arn env ''worker'') (log_level env ''worker'')
             (logging_enabled env ''worker'') cfg) (\<lambda>cfg.
     bind (configure_subprocesses_logging ext ''worker_requirements''
             (log_group_arn env ''worker'') (log_level env ''worker'')
             (logging_enabled env ''worker'') cfg) (\<lambda>cfg.
     bind (configure_subprocesses_logging ext ''scheduler''
             (log_group_arn env ''scheduler'') (log_level env ''scheduler'')
             (logging_enabled env ''scheduler'') cfg) (\<lambda>cfg.
     bind (configure_subprocesses_logging ext ''scheduler_requirements''
             (log_group_arn env ''scheduler'') (log_level env ''scheduler'')
             (logging_enabled env ''scheduler'') cfg) (\<lambda>cfg.
     bind (configure_subprocesses_logging ext ''webserver''
             (log_group_arn env ''webserver'') (log_level env ''webserver'')
             (logging_enabled env ''webserver'') cfg) (\<lambda>cfg.
     configure_subprocesses_logging ext ''webserver_requirements''
             (log_group_arn env ''webserver'') (log_level env ''webserver'')
             (logging_enabled env ''webserver'') cfg)))))))) \<and>
   (module_load ext env = Inr cfg' \<longrightarrow>
      dict_keys cfg' ''handlers'' =
        foldl add_key (dict_keys (DEFAULT_LOGGING_CONFIG ext) ''handlers'')
          (map fst (written_names env)) \<and>
      dict_keys cfg' ''loggers'' =
        foldl add_key (dict_keys (DEFAULT_LOGGING_CONFIG ext) ''loggers'')
          (map snd (written_names env)) \<and>
      (\<forall>source arn h l.
           source \<in> set sources \<and> env (env_var source ''_LOG_GROUP_ARN'') = Some arn \<and>
           (h, l) \<in> set (registrations source) \<longrightarrow>
           handler_param cfg' h ''log_group_arn'' = Some (PStr arn) \<and>
           logger_param cfg' l ''level'' = Some (PStr (log_level env source))) \<and>
      top_keys cfg' = top_keys (DEFAULT_LOGGING_CONFIG ext) \<and>
      (\<forall>k. k \<noteq> ''handlers'' \<and> k \<noteq> ''loggers'' \<longrightarrow>
           getitem cfg' k = getitem (DEFAULT_LOGGING_CONFIG ext) k) \<and>
      (\<forall>h. h \<notin> fst ` set (concat (map registrations sources)) \<longrightarrow>
           handlers_of cfg' h = handlers_of (DEFAULT_LOGGING_CONFIG ext) h) \<and>
      (\<forall>l. l \<notin> snd ` set (concat (map registrations sources)) \<longrightarrow>
           loggers_of cfg' l = loggers_of (DEFAULT_LOGGING_CONFIG ext) l))"
  (is "?sequence \<and> (_ \<longrightarrow> ?keys_h \<and> ?keys_l \<and> ?written \<and> ?top \<and> ?rest \<and> ?other_h \<and> ?other_l)")
proof (rule conjI)
  have "configure ext env = (\<lambda>cfg.
     bind (configure_task_logging ext env cfg) (\<lambda>cfg.
     bind (configure_dag_processing_logging ext env cfg) (\<lambda>cfg.
     configure_components ext env [''worker'', ''scheduler'', ''webserver''] cfg)))"
    by (rule ext) (simp add: configure_def)
  moreover have "configure_components ext env [] = Inr"
    by (rule ext) simp
  moreover have "configure_components ext env (c # cs) = (\<lambda>cfg.
     bind (configure_subprocesses_logging ext c
             (log_group_arn env c) (log_level env c) (logging_enabled env c) cfg) (\<lambda>cfg.
     bind (configure_subprocesses_logging ext (c @ ''_requirements'')
             (log_group_arn env c) (log_level env c) (logging_enabled env c) cfg)
       (configure_components ext env cs)))" for c cs
    by (rule ext) (simp add: get_vars_split)
  ultimately show ?sequence
    by (simp add: module_load_def bind_Inr_right)
next
  show "module_load ext env = Inr cfg' \<longrightarrow>
      ?keys_h \<and> ?keys_l \<and> ?written \<and> ?top \<and> ?rest \<and> ?other_h \<and> ?other_l"
  proof (rule impI)
    assume load: "module_load ext env = Inr cfg'"
    have 1: ?keys_h by (rule module_load_keys(1) [OF load])
    have 2: ?keys_l by (rule module_load_keys(2) [OF load])
    have 3: ?written
      using registered_written [OF load] by blast
    have 4: ?top by (rule module_load_kept(1) [OF load])
    have 5: ?rest by (simp add: module_load_kept(2) [OF load])
    have 6: ?other_h
      unfolding module_load_effect(1) [OF load]
      by (intro allI impI) (rule handlers_after_other)
    have 7: ?other_l
      unfolding module_load_effect(2) [OF load]
      by (intro allI impI) (rule loggers_after_other)
    from 1 2 3 4 5 6 7
    show "?keys_h \<and> ?keys_l \<and> ?written \<and> ?top \<and> ?rest \<and> ?other_h \<and> ?other_l"
      by (intro conjI)
  qed
qed

theorem fixed_sequence_of_setup_calls_witness:
  "module_load airflow_defaults env_all = Inr (projr (module_load airflow_defaults env_all)) \<and>
   dict_keys (projr (module_load airflow_defaults env_all)) ''handlers'' =
     [''console'', ''task'', ''processor_manager'', ''processor'',
      ''mwaa_worker'', ''mwaa_worker_requirements'',
      ''mwaa_scheduler'', ''mwaa_scheduler_requirements'',
      ''mwaa_webserver'', ''mwaa_webserver_requirements''] \<and>
   dict_keys (projr (module_load airflow_defaults env_all)) ''loggers'' =
     [''airflow.task'', ''airflow.processor_manager'', ''airflow.processor'',
      ''mwaa.worker'', ''mwaa.worker_requirements'',
      ''mwaa.scheduler'', ''mwaa.scheduler_requirements'',
      ''mwaa.webserver'', ''mwaa.webserver_requirements''] \<and>
   handler_param (projr (module_load airflow_defaults env_all)) ''mwaa_scheduler_requirements''
       ''log_group_arn'' =
     Some (PStr ''arn:aws:logs:us-east-1:1:log-group:Scheduler'') \<and>
   logger_param (projr (module_load airflow_defaults env_all)) ''airflow.task'' ''level'' =
     Some (PStr ''DEBUG'') \<and>
   top_keys (projr (module_load airflow_defaults env_all)) =
     [''version'', ''disable_existing_loggers'', ''handlers'', ''loggers''] \<and>
   getitem (projr (module_load airflow_defaults env_all)) ''version'' = Inr (PInt 1) \<and>
   handlers_of (projr (module_load airflow_defaults env_all)) ''console'' =
     Some (PDict [
       (''class'', PStr ''airflow.utils.log.logging_mixin.RedirectStdHandler''),
       (''formatter'', PStr ''airflow_coloured'')])"
proof -
  have h1: "module_load airflow_defaults env_all = Inr (projr (module_load airflow_defaults env_all))"
    by (rule module_load_projr) (rule well_formed_airflow_defaults)
  have k: "''version'' \<noteq> ''handlers'' \<and> ''version'' \<noteq> ''loggers''"
    by simp
  have c: "''console'' \<notin> fst ` set (concat (map registrations sources))"
    by (simp add: sources_def registrations_def)
  have s: "''scheduler'' \<in> set sources \<and>
      env_all (env_var ''scheduler'' ''_LOG_GROUP_ARN'') =
        Some ''arn:aws:logs:us-east-1:1:log-group:Scheduler'' \<and>
      (''mwaa_scheduler_requirements'', ''mwaa.scheduler_requirements'') \<in>
        set (registrations ''scheduler'')"
    by (simp add: sources_def registrations_def env_all_def env_var_simps)
  have t: "''task'' \<in> set sources \<and>
      env_all (env_var ''task'' ''_LOG_GROUP_ARN'') =
        Some ''arn:aws:logs:us-east-1:1:log-group:Task'' \<and>
      (''task'', ''airflow.task'') \<in> set (registrations ''task'')"
    by (simp add: sources_def registrations_def env_all_def env_var_simps)
  have lvl: "log_level env_all ''task'' = ''DEBUG''"
    by (simp add: log_level_eq env_all_def env_var_simps)
  have d1: "top_keys (DEFAULT_LOGGING_CONFIG airflow_defaults) =
     [''version'', ''disable_existing_loggers'', ''handlers'', ''loggers'']"
    by (simp add: top_keys_def airflow_defaults_def)
  have d2: "getitem (DEFAULT_LOGGING_CONFIG airflow_defaults) ''version'' = Inr (PInt 1)"
    by (simp add: getitem_def airflow_defaults_def)
  have d3: "handlers_of (DEFAULT_LOGGING_CONFIG airflow_defaults) ''console'' =
     Some (PDict [
       (''class'', PStr ''airflow.utils.log.logging_mixin.RedirectStdHandler''),
       (''formatter'', PStr ''airflow_coloured'')])"
    by (simp add: handlers_of_def subdict_def getitem_def airflow_defaults_def)
  have d4: "foldl add_key (dict_keys (DEFAULT_LOGGING_CONFIG airflow_defaults) ''handlers'')
      (map fst (written_names env_all)) =
     [''console'', ''task'', ''processor_manager'', ''processor'',
      ''mwaa_worker'', ''mwaa_worker_requirements'',
      ''mwaa_scheduler'', ''mwaa_scheduler_requirements'',
      ''mwaa_webserver'', ''mwaa_webserver_requirements'']"
    by code_simp
  have d5: "foldl add_key (dict_keys (DEFAULT_LOGGING_CONFIG airflow_defaults) ''loggers'')
      (map snd (written_names env_all)) =
     [''airflow.task'', ''airflow.processor_manager'', ''airflow.processor'',
      ''mwaa.worker'', ''mwaa.worker_requirements'',
      ''mwaa.scheduler'', ''mwaa.scheduler_requirements'',
      ''mwaa.webserver'', ''mwaa.webserver_requirements'']"
    by code_simp
  note all = fixed_sequence_of_setup_calls [of airflow_defaults env_all
      "projr (module_load airflow_defaults env_all)", THEN conjunct2, THEN mp, OF h1]
  note k1 = all [THEN conjunct1]
  note k2 = all [THEN conjunct2, THEN conjunct1]
  note w = all [THEN conjunct2, THEN conjunct2, THEN conjunct1]
  note w1 = w [THEN spec, THEN spec, THEN spec, THEN spec, THEN mp, OF s, THEN conjunct1]
  note w2 = w [THEN spec, THEN spec, THEN spec, THEN spec, THEN mp, OF t, THEN conjunct2]
  note kept = all [THEN conjunct2, THEN conjunct2, THEN conjunct2]
  note k3 = kept [THEN conjunct1]
  note k4 = kept [THEN conjunct2, THEN conjunct1, THEN spec, THEN mp, OF k]
  note k5 = kept [THEN conjunct2, THEN conjunct2, THEN conjunct1, THEN spec, THEN mp, OF c]
  from h1 k1 k2 w1 w2 k3 k4 k5 show ?thesis
    unfolding d1 d2 d3 d4 d5 lvl by (simp only: simp_thms)
qed

text \<open>
  C7. The loaded configuration is a function of the environment and of the framework's
  defaults, and of nothing else. Of the environment it reads the fifteen variables of the
  five sources and what \<open>os.path.expanduser\<close> makes of the base log folder: two
  environments that agree on these load the same configuration (or fail with the same
  exception). A second run of the configuration step on the configuration the first run
  left, in place, gives that configuration again.
\<close>

theorem configuration_is_function_of_environment:
  assumes "\<forall>source \<in> set sources.
             \<forall>suffix \<in> set [''_LOG_GROUP_ARN'', ''_LOG_LEVEL'', ''_LOGS_ENABLED''].
               env1 (env_var source suffix) = env2 (env_var source suffix)"
    and "expanduser ext env1 (BASE_LOG_FOLDER ext) = expanduser ext env2 (BASE_LOG_FOLDER ext)"
  shows "module_load ext env1 = module_load ext env2 \<and>
         (\<forall>cfg'. module_load ext env1 = Inr cfg' \<longrightarrow> configure ext env2 cfg' = Inr cfg')"
proof -
  have vars: "get_mwaa_logging_env_vars env1 source = get_mwaa_logging_env_vars env2 source"
    if "source \<in> set sources" for source
    using assms(1) that by (simp add: get_mwaa_logging_env_vars_def)
  note cong = configure_cong [of env1 env2 ext, OF vars assms(2)]
  have "configure ext env1 = configure ext env2"
    by (rule ext) (rule cong)
  then have load: "module_load ext env1 = module_load ext env2"
    by (simp add: module_load_def)
  have "configure ext env2 cfg' = Inr cfg'" if "module_load ext env1 = Inr cfg'" for cfg'
  proof -
    from that have "configure ext env1 (DEFAULT_LOGGING_CONFIG ext) = Inr cfg'"
      by (rule module_load_configure)
    then have "configure ext env1 cfg' = Inr cfg'"
      by (rule configure_idempotent)
    then show ?thesis
      by (simp only: cong)
  qed
  with load show ?thesis
    by blast
qed

theorem configuration_is_function_of_environment_witness:
  "list_all (\<lambda>source.
      list_all (\<lambda>suffix.
        env_worker (env_var source suffix) = env_worker_home (env_var source suffix))
        [''_LOG_GROUP_ARN'', ''_LOG_LEVEL'', ''_LOGS_ENABLED'']) sources \<and>
   expanduser airflow_defaults env_worker (BASE_LOG_FOLDER airflow_defaults) =
     expanduser airflow_defaults env_worker_home (BASE_LOG_FOLDER airflow_defaults) \<and>
   module_load airflow_defaults env_worker = module_load airflow_defaults env_worker_home \<and>
   configure airflow_defaults env_worker_home (projr (module_load airflow_defaults env_worker)) =
     Inr (projr (module_load airflow_defaults env_worker))"
proof -
  have h1: "\<forall>source \<in> set sources.
      \<forall>suffix \<in> set [''_LOG_GROUP_ARN'', ''_LOG_LEVEL'', ''_LOGS_ENABLED''].
        env_worker (env_var source suffix) = env_worker_home (env_var source suffix)"
    by (simp add: sources_def env_worker_def env_worker_home_def env_var_simps)
  have h2: "expanduser airflow_defaults env_worker (BASE_LOG_FOLDER airflow_defaults) =
     expanduser airflow_defaults env_worker_home (BASE_LOG_FOLDER airflow_defaults)"
    by (simp add: airflow_defaults_def)
  have ok: "module_load airflow_defaults env_worker =
      Inr (projr (module_load airflow_defaults env_worker))"
    by (rule module_load_projr) (rule well_formed_airflow_defaults)
  note both = configuration_is_function_of_environment [OF h1 h2]
  note a = both [THEN conjunct1]
  note b = both [THEN conjunct2, THEN spec, THEN mp, OF ok]
  from h1 have h1': "list_all (\<lambda>source.
      list_all (\<lambda>suffix.
        env_worker (env_var source suffix) = env_worker_home (env_var source suffix))
        [''_LOG_GROUP_ARN'', ''_LOG_LEVEL'', ''_LOGS_ENABLED'']) sources"
    by (simp only: list_all_iff)
  from h1' h2 a b show ?thesis
    by (simp only: simp_thms)
qed

text \<open>
  C8. When the log group ARN of dag_processing is set, the DAG-processing setup call
  changes the handlers at exactly two names, \<open>processor_manager\<close> and \<open>processor\<close>, and
  the loggers at exactly two names, \<open>airflow.processor_manager\<close> and
  \<open>airflow.processor\<close>; both handlers carry the same ARN and the same enablement flag,
  both loggers the same level, all read from the variables of dag_processing, and each
  logger attaches the handler of its pair.
\<close>

theorem dag_processing_two_pairs:
  assumes "configure_dag_processing_logging ext env cfg = Inr cfg'"
    and "env (env_var ''dag_processing'' ''_LOG_GROUP_ARN'') = Some arn"
  shows "handlers_of cfg' =
           (handlers_of cfg)
             (''processor_manager'' \<mapsto>
                processor_manager_handler ext arn (logging_enabled env ''dag_processing''),
              ''processor'' \<mapsto>
                processor_handler ext arn (logging_enabled env ''dag_processing'')) \<and>
         loggers_of cfg' =
           (loggers_of cfg)
             (''airflow.processor_manager'' \<mapsto>
                new_logger ''processor_manager'' (log_level env ''dag_processing''),
              ''airflow.processor'' \<mapsto>
                new_logger ''processor'' (log_level env ''dag_processing'')) \<and>
         handler_param cfg' ''processor_manager'' ''log_group_arn'' = Some (PStr arn) \<and>
         handler_param cfg' ''processor'' ''log_group_arn'' = Some (PStr arn) \<and>
         handler_param cfg' ''processor_manager'' ''enabled'' =
           Some (PBool (logging_enabled env ''dag_processing'')) \<and>
         handler_param cfg' ''processor'' ''enabled'' =
           Some (PBool (logging_enabled env ''dag_processing'')) \<and>
         logger_param cfg' ''airflow.processor_manager'' ''level'' =
           Some (PStr (log_level env ''dag_processing'')) \<and>
         logger_param cfg' ''airflow.processor'' ''level'' =
           Some (PStr (log_level env ''dag_processing'')) \<and>
         logger_param cfg' ''airflow.processor_manager'' ''handlers'' =
           Some (PList [PStr ''processor_manager'']) \<and>
         logger_param cfg' ''airflow.processor'' ''handlers'' = Some (PList [PStr ''processor''])"
proof -
  from assms(2) have arn: "log_group_arn env ''dag_processing'' = Some arn"
    by (simp add: log_group_arn_eq)
  note eff = configure_dag_processing_logging_effect [OF assms(1)]
  have h: "handlers_of cfg' =
      (handlers_of cfg)(''processor_manager'' \<mapsto>
          processor_manager_handler ext arn (logging_enabled env ''dag_processing''),
        ''processor'' \<mapsto> processor_handler ext arn (logging_enabled env ''dag_processing''))"
    by (simp add: eff dag_handlers_def written_def arn)
  have l: "loggers_of cfg' =
      (loggers_of cfg)(''airflow.processor_manager'' \<mapsto>
          new_logger ''processor_manager'' (log_level env ''dag_processing''),
        ''airflow.processor'' \<mapsto> new_logger ''processor'' (log_level env ''dag_processing''))"
    by (simp add: eff dag_loggers_def written_def arn)
  have p: "handler_param cfg' ''processor_manager'' ''log_group_arn'' = Some (PStr arn)"
    "handler_param cfg' ''processor'' ''log_group_arn'' = Some (PStr arn)"
    "handler_param cfg' ''processor_manager'' ''enabled'' =
       Some (PBool (logging_enabled env ''dag_processing''))"
    "handler_param cfg' ''processor'' ''enabled'' =
       Some (PBool (logging_enabled env ''dag_processing''))"
    by (simp_all add: handler_param_def h processor_manager_handler_def processor_handler_def)
  have q: "logger_param cfg' ''airflow.processor_manager'' ''level'' =
       Some (PStr (log_level env ''dag_processing''))"
    "logger_param cfg' ''airflow.processor'' ''level'' =
       Some (PStr (log_level env ''dag_processing''))"
    "logger_param cfg' ''airflow.processor_manager'' ''handlers'' =
       Some (PList [PStr ''processor_manager''])"
    "logger_param cfg' ''airflow.processor'' ''handlers'' = Some (PList [PStr ''processor''])"
    by (simp_all add: logger_param_def l new_logger_def)
  from h l p q show ?thesis
    by (simp only: simp_thms)
qed

theorem dag_processing_two_pairs_witness:
  "configure_dag_processing_logging airflow_defaults env_all (DEFAULT_LOGGING_CONFIG airflow_defaults) =
     Inr (projr (configure_dag_processing_logging airflow_defaults env_all
                   (DEFAULT_LOGGING_CONFIG airflow_defaults))) \<and>
   env_all (env_var ''dag_processing'' ''_LOG_GROUP_ARN'') =
     Some ''arn:aws:logs:us-east-1:1:log-group:DAGProcessing'' \<and>
   handler_param (projr (configure_dag_processing_logging airflow_defaults env_all
       (DEFAULT_LOGGING_CONFIG airflow_defaults))) ''processor_manager'' ''log_group_arn'' =
     Some (PStr ''arn:aws:logs:us-east-1:1:log-group:DAGProcessing'') \<and>
   handler_param (projr (configure_dag_processing_logging airflow_defaults env_all
       (DEFAULT_LOGGING_CONFIG airflow_defaults))) ''processor'' ''log_group_arn'' =
     Some (PStr ''arn:aws:logs:us-east-1:1:log-group:DAGProcessing'') \<and>
   handler_param (projr (configure_dag_processing_logging airflow_defaults env_all
       (DEFAULT_LOGGING_CONFIG airflow_defaults))) ''processor_manager'' ''enabled'' =
     Some (PBool True) \<and>
   handler_param (projr (configure_dag_processing_logging airflow_defaults env_all
       (DEFAULT_LOGGING_CONFIG airflow_defaults))) ''processor'' ''enabled'' =
     Some (PBool True) \<and>
   logger_param (projr (configure_dag_processing_logging airflow_defaults env_all
       (DEFAULT_LOGGING_CONFIG airflow_defaults))) ''airflow.processor_manager'' ''level'' =
     Some (PStr ''WARNING'') \<and>
   logger_param (projr (configure_dag_processing_logging airflow_defaults env_all
       (DEFAULT_LOGGING_CONFIG airflow_defaults))) ''airflow.processor'' ''level'' =
     Some (PStr ''WARNING'')"
proof -
  have h1: "configure_dag_processing_logging airflow_defaults env_all (DEFAULT_LOGGING_CONFIG airflow_defaults) =
     Inr (projr (configure_dag_processing_logging airflow_defaults env_all
                   (DEFAULT_LOGGING_CONFIG airflow_defaults)))"
    by (rule configure_dag_processing_logging_projr) (rule well_formed_airflow_defaults)
  have h2: "env_all (env_var ''dag_processing'' ''_LOG_GROUP_ARN'') =
     Some ''arn:aws:logs:us-east-1:1:log-group:DAGProcessing''"
    by (simp add: env_all_def env_var_simps)
  have lvl: "log_level env_all ''dag_processing'' = ''WARNING''"
    by (simp add: log_level_eq env_all_def env_var_simps)
  have en: "logging_enabled env_all ''dag_processing'' = True"
    by (simp add: logging_enabled_eq env_all_def env_var_simps true_spellings_def)
  from dag_processing_two_pairs [OF h1 h2] h1 h2 show ?thesis
    unfolding lvl en by (simp only: simp_thms)
qed



text \<open>
  C10. Every logger entry the module creates (\<open>airflow.processor_manager\<close>,
  \<open>airflow.processor\<close> and the \<open>mwaa.<subprocess>\<close> loggers: the loggers of every source
  but task) has its propagation flag set to False and attaches exactly one handler, the
  one written under the handler name of the same setup call, which holds the ARN of the
  source.
\<close>

theorem new_logger_entries:
  assumes "module_load ext env = Inr cfg'"
    and "source \<in> set sources"
    and "(h, l) \<in> set (registrations source)"
    and "env (env_var source ''_LOG_GROUP_ARN'') = Some arn"
    and "source \<noteq> ''task''"
  shows "\<exists>e he. loggers_of cfg' l = Some (PDict e) \<and>
           map_of e ''propagate'' = Some (PBool False) \<and>
           map_of e ''handlers'' = Some (PList [PStr h]) \<and>
           handlers_of cfg' h = Some (PDict he) \<and>
           map_of he ''log_group_arn'' = Some (PStr arn)"
proof -
  from assms(4) have arn: "log_group_arn env source = Some arn"
    by (simp add: log_group_arn_eq)
  from registered_handler [OF assms(1-3) arn]
  have "\<exists>he. handlers_of cfg' h = Some (PDict he) \<and> map_of he ''log_group_arn'' = Some (PStr arn)"
    by (auto simp add: handler_defs)
  with registered_new_logger [OF assms(1-3) arn assms(5)] show ?thesis
    by (simp add: new_logger_def)
qed

theorem new_logger_entries_witness:
  "module_load airflow_defaults env_all = Inr (projr (module_load airflow_defaults env_all)) \<and>
   ''scheduler'' \<in> set sources \<and>
   (''mwaa_scheduler'', ''mwaa.scheduler'') \<in> set (registrations ''scheduler'') \<and>
   env_all (env_var ''scheduler'' ''_LOG_GROUP_ARN'') =
     Some ''arn:aws:logs:us-east-1:1:log-group:Scheduler'' \<and>
   ''scheduler'' \<noteq> ''task'' \<and>
   (\<exists>e he. loggers_of (projr (module_load airflow_defaults env_all)) ''mwaa.scheduler'' = Some (PDict e) \<and>
      map_of e ''propagate'' = Some (PBool False) \<and>
      map_of e ''handlers'' = Some (PList [PStr ''mwaa_scheduler'']) \<and>
      handlers_of (projr (module_load airflow_defaults env_all)) ''mwaa_scheduler'' = Some (PDict he) \<and>
      map_of he ''log_group_arn'' = Some (PStr ''arn:aws:logs:us-east-1:1:log-group:Scheduler''))"
proof -
  have h1: "module_load airflow_defaults env_all = Inr (projr (module_load airflow_defaults env_all))"
    by (rule module_load_projr) (rule well_formed_airflow_defaults)
  have h2: "''scheduler'' \<in> set sources"
    by (simp add: sources_def)
  have h3: "(''mwaa_scheduler'', ''mwaa.scheduler'') \<in> set (registrations ''scheduler'')"
    by (simp add: registrations_def)
  have h4: "env_all (env_var ''scheduler'' ''_LOG_GROUP_ARN'') =
     Some ''arn:aws:logs:us-east-1:1:log-group:Scheduler''"
    by (simp add: env_all_def env_var_simps)
  have h5: "''scheduler'' \<noteq> ''task''"
    by simp
  from new_logger_entries [OF h1 h2 h3 h4 h5] h1 h2 h3 h4 show ?thesis
    by simp
qed

end
